theory Spec2Isabelle
  imports Complex_Main
begin

section \<open>Python built-ins the program relies on\<close>

text \<open>
  The exceptions that the modelled functions can raise. \<open>KeyError\<close> carries the missing key.
\<close>

datatype py_error = KeyError string | IndexError | TypeError | FileNotFoundError | JSONDecodeError

text \<open>
  The slice \<^verbatim>\<open>xs[:n]\<close>: a negative bound counts from the end of the list.
\<close>

definition py_take :: "int \<Rightarrow> 'a list \<Rightarrow> 'a list" where
  "py_take n xs = (if 0 \<le> n then take (nat n) xs else take (nat (int (length xs) + n)) xs)"

text \<open>
  The subscript \<^verbatim>\<open>xs[i]\<close>: a negative index counts from the end, an index out of range
  raises \<open>IndexError\<close>.
\<close>

definition py_index :: "'a list \<Rightarrow> int \<Rightarrow> py_error + 'a" where
  "py_index xs i =
     (if 0 \<le> i \<and> i < int (length xs) then Inr (xs ! nat i)
      else if i < 0 \<and> - int (length xs) \<le> i then Inr (xs ! nat (int (length xs) + i))
      else Inl IndexError)"

text \<open>\<^verbatim>\<open>sep.join(parts)\<close>.\<close>

fun py_join :: "string \<Rightarrow> string list \<Rightarrow> string" where
  "py_join sep [] = []"
| "py_join sep [x] = x"
| "py_join sep (x # y # ys) = x @ sep @ py_join sep (y # ys)"

text \<open>
  \<^verbatim>\<open>str(n)\<close> of an integer, as an f-string prints it: decimal digits, a minus sign in
  front of a negative number.
\<close>

definition digit_char :: "nat \<Rightarrow> char" where
  "digit_char d = ''0123456789'' ! d"

function str_nat :: "nat \<Rightarrow> string" where
  "str_nat n = (if n < 10 then [digit_char n] else str_nat (n div 10) @ [digit_char (n mod 10)])"
  by pat_completeness auto
termination
  by (relation "measure (\<lambda>n. n)") auto

declare str_nat.simps [simp del]

definition str_int :: "int \<Rightarrow> string" where
  "str_int i = (if i < 0 then CHR ''-'' # str_nat (nat (- i)) else str_nat (nat i))"

text \<open>
  \<^verbatim>\<open>int(x)\<close> of a float rounds towards zero. Floats are modelled by the reals: the
  products and quotients below are taken exactly.
\<close>

definition py_int :: "real \<Rightarrow> int" where
  "py_int x = (if 0 \<le> x then \<lfloor>x\<rfloor> else \<lceil>x\<rceil>)"

text \<open>
  \<^verbatim>\<open>s.lower()\<close> and \<^verbatim>\<open>s.split()\<close> on ASCII text: a \<open>char\<close> is a byte, the letters
  \<open>A\<close> to \<open>Z\<close> are mapped to \<open>a\<close> to \<open>z\<close>, and the separators are the ASCII white space
  characters.
\<close>

definition lower_char :: "char \<Rightarrow> char" where
  "lower_char c =
     (case map_of (zip ''ABCDEFGHIJKLMNOPQRSTUVWXYZ'' ''abcdefghijklmnopqrstuvwxyz'') c of
        None \<Rightarrow> c
      | Some l \<Rightarrow> l)"

definition py_lower :: "string \<Rightarrow> string" where
  "py_lower s = map lower_char s"

definition is_space :: "char \<Rightarrow> bool" where
  "is_space c =
     (c \<in> set [CHR '' '', CHR 0x09, CHR 0x0A, CHR 0x0B, CHR 0x0C, CHR 0x0D,
                CHR 0x1C, CHR 0x1D, CHR 0x1E, CHR 0x1F])"

fun py_split_from :: "string \<Rightarrow> string \<Rightarrow> string list" where
  "py_split_from cur [] = (if cur = [] then [] else [cur])"
| "py_split_from cur (c # cs) =
     (if is_space c
      then (if cur = [] then py_split_from [] cs else cur # py_split_from [] cs)
      else py_split_from (cur @ [c]) cs)"

definition py_split :: "string \<Rightarrow> string list" where
  "py_split s = py_split_from [] s"

section \<open>memory\_system.py\<close>

subsection \<open>TokenCounter\<close>

text \<open>
  The encoder is tiktoken's, a library outside the repository: its \<open>encode\<close> and \<open>decode\<close>
  are parameters of the model, taken to be total.
\<close>

record TokenCounter =
  encode :: "string \<Rightarrow> nat list"
  decode :: "nat list \<Rightarrow> string"

definition TokenCounter_count :: "TokenCounter \<Rightarrow> string \<Rightarrow> nat" where
  "TokenCounter_count tc text = length (encode tc text)"

definition TokenCounter_truncate :: "TokenCounter \<Rightarrow> string \<Rightarrow> int \<Rightarrow> string" where
  "TokenCounter_truncate tc text max_tokens =
     (let tokens = encode tc text
      in if int (length tokens) \<le> max_tokens then text
         else decode tc (py_take max_tokens tokens))"

subsection \<open>The dictionaries held by the tiers\<close>

text \<open>
  Each dictionary literal of the source is a record with the keys of that literal.
  \<open>turn_data\<close> is the dictionary that \<open>store_turn\<close> builds; \<open>sensory_turn\<close> is the one
  \<open>SensoryMemory.store\<close> appends (it has no key \<open>entities\<close>); \<open>compressed_turn\<close> is the one
  \<open>compress_and_store\<close> appends; \<open>memory_entry\<close> is the one \<open>archive_turn\<close> appends.
\<close>

record turn_data =
  td_turn_number :: int
  td_user_message :: string
  td_assistant_response :: string
  td_tool_output :: string
  td_entities :: "string list"

record sensory_turn =
  s_turn_number :: int
  s_user_message :: string
  s_assistant_response :: string
  s_tool_output :: string
  s_timestamp :: string
  s_tokens :: nat

record compressed_turn =
  c_turn_number :: int
  original_tokens :: nat
  compressed_summary :: string
  compressed_tokens :: nat
  c_entities :: "string list"
  c_timestamp :: string

record memory_entry =
  m_id :: int
  m_turn_number :: int
  ultra_summary :: string
  m_entities :: "string list"
  m_timestamp :: string
  m_tokens :: nat

text \<open>
  The compressor is an object passed in by the caller; \<open>generate\<close> either returns a string
  or raises an \<open>Exception\<close>. Its behaviour during one call of the memory system is a
  function of the prompt.
\<close>

datatype gen_result = Returns string | Raises

type_synonym llm_compressor = "string \<Rightarrow> gen_result"

subsection \<open>SensoryMemory\<close>

record SensoryMemory =
  turns :: "sensory_turn list"
  max_turns :: int

definition SensoryMemory_init :: "int \<Rightarrow> SensoryMemory" where
  "SensoryMemory_init n = \<lparr>turns = [], max_turns = n\<rparr>"

text \<open>
  \<open>store\<close> appends the new dictionary and, when the list is longer than \<open>max_turns\<close>,
  pops and returns its first element. \<open>now\<close> is the clock reading of the call. The list
  is never empty after the append, so \<open>hd\<close> and \<open>tl\<close> are \<^verbatim>\<open>pop(0)\<close>.
\<close>

definition sensory_entry :: "TokenCounter \<Rightarrow> string \<Rightarrow> turn_data \<Rightarrow> sensory_turn" where
  "sensory_entry tc now td =
     \<lparr>s_turn_number = td_turn_number td,
      s_user_message = td_user_message td,
      s_assistant_response = td_assistant_response td,
      s_tool_output = td_tool_output td,
      s_timestamp = now,
      s_tokens = TokenCounter_count tc (td_user_message td @ '' '' @ td_assistant_response td)\<rparr>"

definition SensoryMemory_store ::
  "TokenCounter \<Rightarrow> string \<Rightarrow> SensoryMemory \<Rightarrow> turn_data \<Rightarrow> SensoryMemory \<times> sensory_turn option" where
  "SensoryMemory_store tc now sm td =
     (let ts = turns sm @ [sensory_entry tc now td]
      in if int (length ts) > max_turns sm
         then (sm\<lparr>turns := tl ts\<rparr>, Some (hd ts))
         else (sm\<lparr>turns := ts\<rparr>, None))"

definition sensory_part :: "sensory_turn \<Rightarrow> string" where
  "sensory_part t =
     ''\<newline>[Turn '' @ str_int (s_turn_number t) @ '' - Recent]\<newline>User: '' @ s_user_message t @
     ''\<newline>Assistant: '' @ s_assistant_response t @ ''\<newline>''"

definition SensoryMemory_get_context :: "SensoryMemory \<Rightarrow> string" where
  "SensoryMemory_get_context sm =
     (if turns sm = [] then '''' else py_join ''\<newline>'' (map sensory_part (turns sm)))"

subsection \<open>ShortTermMemory\<close>

record ShortTermMemory =
  compressed_turns :: "compressed_turn list"
  st_max_turns :: int
  compression_ratio :: real

definition ShortTermMemory_init :: "int \<Rightarrow> real \<Rightarrow> ShortTermMemory" where
  "ShortTermMemory_init n r = \<lparr>compressed_turns = [], st_max_turns = n, compression_ratio = r\<rparr>"

definition compress_prompt :: "TokenCounter \<Rightarrow> real \<Rightarrow> sensory_turn \<Rightarrow> string" where
  "compress_prompt tc ratio t =
     ''Summarize this conversation turn concisely, keeping all key facts:\<newline>\<newline>User Query: '' @
     s_user_message t @
     ''\<newline>Assistant Response: '' @ s_assistant_response t @
     ''\<newline>Tool Output: '' @ py_take 500 (s_tool_output t) @
     ''\<newline>\<newline>Requirements:\<newline>- Preserve: entities, numbers, decisions, questions\<newline>- Remove: verbose explanations, filler words\<newline>- Target length: '' @
     str_int (py_int (real (TokenCounter_count tc (s_user_message t @ s_assistant_response t)) * ratio)) @
     '' tokens\<newline>\<newline>Format:\<newline>User asked: [concise question]\<newline>Response: [key points only]\<newline>Key info: [entities, numbers]\<newline>''"

text \<open>
  The text that the fallback of \<open>_compress_turn\<close> truncates, and its target length.
\<close>

definition combined_text :: "sensory_turn \<Rightarrow> string" where
  "combined_text t = ''User: '' @ s_user_message t @ ''\<newline>Assistant: '' @ s_assistant_response t"

definition target_tokens :: "TokenCounter \<Rightarrow> real \<Rightarrow> sensory_turn \<Rightarrow> int" where
  "target_tokens tc ratio t = py_int (real (TokenCounter_count tc (combined_text t)) * ratio)"

definition compress_turn ::
  "TokenCounter \<Rightarrow> real \<Rightarrow> sensory_turn \<Rightarrow> llm_compressor \<Rightarrow> string" where
  "compress_turn tc ratio t llm =
     (case llm (compress_prompt tc ratio t) of
        Returns compressed \<Rightarrow> compressed
      | Raises \<Rightarrow> TokenCounter_truncate tc (combined_text t) (target_tokens tc ratio t))"

text \<open>
  \<open>compress_and_store\<close> receives the dictionary popped from the sensory tier. That
  dictionary has no key \<open>entities\<close>, so \<^verbatim>\<open>turn_data.get('entities', [])\<close> is the empty list.
\<close>

definition sensory_get_entities :: "sensory_turn \<Rightarrow> string list" where
  "sensory_get_entities t = []"

definition compressed_entry ::
  "TokenCounter \<Rightarrow> string \<Rightarrow> sensory_turn \<Rightarrow> string \<Rightarrow> compressed_turn" where
  "compressed_entry tc now t compressed =
     \<lparr>c_turn_number = s_turn_number t,
      original_tokens = TokenCounter_count tc (s_user_message t @ '' '' @ s_assistant_response t),
      compressed_summary = compressed,
      compressed_tokens = TokenCounter_count tc compressed,
      c_entities = sensory_get_entities t,
      c_timestamp = now\<rparr>"

definition compress_and_store ::
  "TokenCounter \<Rightarrow> string \<Rightarrow> ShortTermMemory \<Rightarrow> sensory_turn \<Rightarrow> llm_compressor \<Rightarrow>
   ShortTermMemory \<times> compressed_turn option" where
  "compress_and_store tc now st t llm =
     (let compressed = compress_turn tc (compression_ratio st) t llm;
          cts = compressed_turns st @ [compressed_entry tc now t compressed]
      in if int (length cts) > st_max_turns st
         then (st\<lparr>compressed_turns := tl cts\<rparr>, Some (hd cts))
         else (st\<lparr>compressed_turns := cts\<rparr>, None))"

definition short_term_part :: "compressed_turn \<Rightarrow> string" where
  "short_term_part ct =
     ''\<newline>[Turn '' @ str_int (c_turn_number ct) @ '' - Compressed Summary]\<newline>'' @
     compressed_summary ct @ ''\<newline>Entities: '' @ py_join '', '' (c_entities ct) @ ''\<newline>''"

definition ShortTermMemory_get_context :: "ShortTermMemory \<Rightarrow> string" where
  "ShortTermMemory_get_context st =
     (if compressed_turns st = [] then ''''
      else py_join ''\<newline>'' (map short_term_part (compressed_turns st)))"

subsection \<open>LongTermMemory\<close>

record LongTermMemory =
  memories :: "memory_entry list"
  max_memories :: int
  entity_index :: "string \<rightharpoonup> int list"

definition LongTermMemory_init :: "int \<Rightarrow> LongTermMemory" where
  "LongTermMemory_init n = \<lparr>memories = [], max_memories = n, entity_index = Map.empty\<rparr>"

text \<open>
  \<open>archive_turn\<close> receives the dictionary popped from the short-term tier, which has the
  key \<open>compressed_summary\<close>: that summary is the input text of \<open>_ultra_compress\<close>.
\<close>

definition ultra_prompt :: "string \<Rightarrow> string" where
  "ultra_prompt input_text =
     ''Extract ONLY the most critical facts as bullet points:\<newline>\<newline>'' @ input_text @
     ''\<newline>\<newline>Format (be extremely concise):\<newline>- Asked: [1-2 words]\<newline>- Answer: [key fact only]\<newline>- Entities: [list]\<newline>- Numbers/Decisions: [if any]\<newline>\<newline>Maximum 4 bullets, 100 tokens total.\<newline>''"

definition ultra_compress :: "TokenCounter \<Rightarrow> compressed_turn \<Rightarrow> llm_compressor \<Rightarrow> string" where
  "ultra_compress tc ct llm =
     (let input_text = compressed_summary ct
      in case llm (ultra_prompt input_text) of
           Returns ultra_compressed \<Rightarrow> ultra_compressed
         | Raises \<Rightarrow> TokenCounter_truncate tc input_text 100)"

text \<open>The two loops of \<open>archive_turn\<close> over the entity index.\<close>

fun index_add :: "string list \<Rightarrow> int \<Rightarrow> (string \<rightharpoonup> int list) \<Rightarrow> (string \<rightharpoonup> int list)" where
  "index_add [] memory_id idx = idx"
| "index_add (entity # es) memory_id idx =
     index_add es memory_id
       (idx(entity \<mapsto> (case idx entity of None \<Rightarrow> [] | Some ids \<Rightarrow> ids) @ [memory_id]))"

fun index_remove :: "string list \<Rightarrow> int \<Rightarrow> (string \<rightharpoonup> int list) \<Rightarrow> (string \<rightharpoonup> int list)" where
  "index_remove [] oldest_id idx = idx"
| "index_remove (entity # es) oldest_id idx =
     index_remove es oldest_id
       (case idx entity of
          None \<Rightarrow> idx
        | Some ids \<Rightarrow> idx(entity \<mapsto> filter (\<lambda>mid. mid \<noteq> oldest_id) ids))"

definition archive_entry ::
  "TokenCounter \<Rightarrow> int \<Rightarrow> compressed_turn \<Rightarrow> string \<Rightarrow> memory_entry" where
  "archive_entry tc memory_id ct ultra_compressed =
     \<lparr>m_id = memory_id,
      m_turn_number = c_turn_number ct,
      ultra_summary = ultra_compressed,
      m_entities = c_entities ct,
      m_timestamp = c_timestamp ct,
      m_tokens = TokenCounter_count tc ultra_compressed\<rparr>"

definition archive_turn ::
  "TokenCounter \<Rightarrow> LongTermMemory \<Rightarrow> compressed_turn \<Rightarrow> llm_compressor \<Rightarrow> LongTermMemory" where
  "archive_turn tc lt ct llm =
     (let ultra_compressed = ultra_compress tc ct llm;
          memory_id = int (length (memories lt));
          ms = memories lt @ [archive_entry tc memory_id ct ultra_compressed];
          idx = index_add (c_entities ct) memory_id (entity_index lt)
      in if int (length ms) > max_memories lt
         then lt\<lparr>memories := tl ms,
                 entity_index := index_remove (m_entities (hd ms)) (m_id (hd ms)) idx\<rparr>
         else lt\<lparr>memories := ms, entity_index := idx\<rparr>)"

text \<open>
  \<open>search_by_entity\<close>: the list comprehension subscripts \<open>memories\<close> with every id of the
  index that is below the length of the list; a subscript that raises ends the call.
\<close>

fun memories_at :: "memory_entry list \<Rightarrow> int list \<Rightarrow> py_error + memory_entry list" where
  "memories_at ms [] = Inr []"
| "memories_at ms (mid # mids) =
     (if mid < int (length ms)
      then (case py_index ms mid of
              Inl e \<Rightarrow> Inl e
            | Inr m \<Rightarrow> (case memories_at ms mids of Inl e \<Rightarrow> Inl e | Inr r \<Rightarrow> Inr (m # r)))
      else memories_at ms mids)"

definition search_by_entity :: "LongTermMemory \<Rightarrow> string \<Rightarrow> py_error + memory_entry list" where
  "search_by_entity lt entity =
     memories_at (memories lt) (case entity_index lt entity of None \<Rightarrow> [] | Some ids \<Rightarrow> ids)"

subsection \<open>ThreeTierMemorySystem\<close>

record ThreeTierMemorySystem =
  sensory :: SensoryMemory
  short_term :: ShortTermMemory
  long_term :: LongTermMemory
  current_turn :: int

definition ThreeTierMemorySystem_init :: ThreeTierMemorySystem where
  "ThreeTierMemorySystem_init =
     \<lparr>sensory = SensoryMemory_init 2,
      short_term = ShortTermMemory_init 5 (1 / 2),
      long_term = LongTermMemory_init 300,
      current_turn = 0\<rparr>"

text \<open>
  One call of \<open>store_turn\<close>: its arguments, the two clock readings taken while it runs
  (in \<open>SensoryMemory.store\<close> and in \<open>compress_and_store\<close>) and the behaviour of the
  compressor during the call.
\<close>

record store_call =
  user_message :: string
  assistant_response :: string
  tool_output :: string
  entities :: "string list option"
  now_sensory :: string
  now_short_term :: string
  llm_compressor :: llm_compressor

definition turn_data_of :: "int \<Rightarrow> store_call \<Rightarrow> turn_data" where
  "turn_data_of n c =
     \<lparr>td_turn_number = n,
      td_user_message = user_message c,
      td_assistant_response = assistant_response c,
      td_tool_output = tool_output c,
      td_entities = (case entities c of None \<Rightarrow> [] | Some es \<Rightarrow> es)\<rparr>"

definition store_turn ::
  "TokenCounter \<Rightarrow> ThreeTierMemorySystem \<Rightarrow> store_call \<Rightarrow> ThreeTierMemorySystem" where
  "store_turn tc sys c =
     (let n = current_turn sys + 1;
          td = turn_data_of n c;
          (sm, promoted_from_sensory) = SensoryMemory_store tc (now_sensory c) (sensory sys) td
      in case promoted_from_sensory of
           None \<Rightarrow> sys\<lparr>current_turn := n, sensory := sm\<rparr>
         | Some t \<Rightarrow>
             (let (st, promoted_from_shortterm) =
                    compress_and_store tc (now_short_term c) (short_term sys) t (llm_compressor c)
              in case promoted_from_shortterm of
                   None \<Rightarrow> sys\<lparr>current_turn := n, sensory := sm, short_term := st\<rparr>
                 | Some ct \<Rightarrow>
                     sys\<lparr>current_turn := n, sensory := sm, short_term := st,
                         long_term := archive_turn tc (long_term sys) ct (llm_compressor c)\<rparr>))"

text \<open>A sequence of \<open>store_turn\<close> calls, the first call first.\<close>

definition store_turns ::
  "TokenCounter \<Rightarrow> ThreeTierMemorySystem \<Rightarrow> store_call list \<Rightarrow> ThreeTierMemorySystem" where
  "store_turns tc sys cs = foldl (store_turn tc) sys cs"

definition get_recent_context :: "ThreeTierMemorySystem \<Rightarrow> string" where
  "get_recent_context sys =
     ''\<newline># Recent Conversation Context\<newline>\<newline>## Immediate Context (Verbatim)\<newline>'' @
     SensoryMemory_get_context (sensory sys) @
     ''\<newline>\<newline>## Short-Term Context (Compressed)\<newline>'' @
     ShortTermMemory_get_context (short_term sys) @ ''\<newline>''"

subsection \<open>export\_state and load\_state\<close>

text \<open>
  A snapshot file holds JSON. The values that the state is made of are strings, integers,
  lists and dictionaries with string keys. A dictionary is a map from its keys: two Python
  dictionaries are equal when they map the same keys to equal values. Floats do not occur
  in the state and are left out.
\<close>

datatype json = JNull | JBool bool | JNum int | JStr string | JList "json list"
  | JObj "string \<Rightarrow> json option"

text \<open>
  The five attributes that \<open>export_state\<close> writes and \<open>load_state\<close> assigns, as the Python
  values they hold: \<open>current_turn\<close>, \<open>sensory.turns\<close>, \<open>short_term.compressed_turns\<close>,
  \<open>long_term.memories\<close> and \<open>long_term.entity_index\<close>. \<open>load_state\<close> assigns what the file
  holds without looking at it, so after a call an attribute can hold any JSON value.
\<close>

record attributes =
  attr_current_turn :: json
  attr_turns :: json
  attr_compressed_turns :: json
  attr_memories :: json
  attr_entity_index :: json

text \<open>
  The values of these attributes in a state of the orchestrator: every dictionary with the
  keys of its literal in the source.
\<close>

definition json_of_sensory_turn :: "sensory_turn \<Rightarrow> json" where
  "json_of_sensory_turn t =
     JObj [''turn_number'' \<mapsto> JNum (s_turn_number t),
           ''user_message'' \<mapsto> JStr (s_user_message t),
           ''assistant_response'' \<mapsto> JStr (s_assistant_response t),
           ''tool_output'' \<mapsto> JStr (s_tool_output t),
           ''timestamp'' \<mapsto> JStr (s_timestamp t),
           ''tokens'' \<mapsto> JNum (int (s_tokens t))]"

definition json_of_compressed_turn :: "compressed_turn \<Rightarrow> json" where
  "json_of_compressed_turn ct =
     JObj [''turn_number'' \<mapsto> JNum (c_turn_number ct),
           ''original_tokens'' \<mapsto> JNum (int (original_tokens ct)),
           ''compressed_summary'' \<mapsto> JStr (compressed_summary ct),
           ''compressed_tokens'' \<mapsto> JNum (int (compressed_tokens ct)),
           ''entities'' \<mapsto> JList (map JStr (c_entities ct)),
           ''timestamp'' \<mapsto> JStr (c_timestamp ct)]"

definition json_of_memory_entry :: "memory_entry \<Rightarrow> json" where
  "json_of_memory_entry m =
     JObj [''id'' \<mapsto> JNum (m_id m),
           ''turn_number'' \<mapsto> JNum (m_turn_number m),
           ''ultra_summary'' \<mapsto> JStr (ultra_summary m),
           ''entities'' \<mapsto> JList (map JStr (m_entities m)),
           ''timestamp'' \<mapsto> JStr (m_timestamp m),
           ''tokens'' \<mapsto> JNum (int (m_tokens m))]"

definition json_of_index :: "(string \<rightharpoonup> int list) \<Rightarrow> json" where
  "json_of_index idx = JObj (\<lambda>entity. map_option (\<lambda>ids. JList (map JNum ids)) (idx entity))"

definition attributes_of :: "ThreeTierMemorySystem \<Rightarrow> attributes" where
  "attributes_of sys =
     \<lparr>attr_current_turn = JNum (current_turn sys),
      attr_turns = JList (map json_of_sensory_turn (turns (sensory sys))),
      attr_compressed_turns = JList (map json_of_compressed_turn (compressed_turns (short_term sys))),
      attr_memories = JList (map json_of_memory_entry (memories (long_term sys))),
      attr_entity_index = json_of_index (entity_index (long_term sys))\<rparr>"

text \<open>
  A file holds text that does not parse as JSON, or a JSON value. \<open>json.dump\<close> and
  \<open>json.load\<close> are the library's: reading back what was written gives the value written.
  Writing a file always succeeds in the model.
\<close>

datatype file_content = NotJson | Json json

type_synonym filesystem = "string \<rightharpoonup> file_content"

definition export_state :: "attributes \<Rightarrow> string \<Rightarrow> filesystem \<Rightarrow> filesystem" where
  "export_state a filepath fs =
     fs(filepath \<mapsto> Json (JObj
       [''current_turn'' \<mapsto> attr_current_turn a,
        ''sensory'' \<mapsto> attr_turns a,
        ''short_term'' \<mapsto> attr_compressed_turns a,
        ''long_term'' \<mapsto> attr_memories a,
        ''entity_index'' \<mapsto> attr_entity_index a]))"

text \<open>
  \<^verbatim>\<open>state[key]\<close> on the value that \<open>json.load\<close> returned: \<open>KeyError\<close> when it is a
  dictionary without the key, \<open>TypeError\<close> when it is not a dictionary (a list or a string
  takes no string as subscript, a number, a truth value and \<open>None\<close> take no subscript).
\<close>

definition subscript :: "json \<Rightarrow> string \<Rightarrow> py_error + json" where
  "subscript state key =
     (case state of
        JObj m \<Rightarrow> (case m key of None \<Rightarrow> Inl (KeyError key) | Some v \<Rightarrow> Inr v)
      | _ \<Rightarrow> Inl TypeError)"

text \<open>
  \<open>load_state\<close> assigns the five attributes one after the other. The result is the
  exception that ended the call, if any, and the attributes the orchestrator is left with.
\<close>

definition load_state ::
  "attributes \<Rightarrow> string \<Rightarrow> filesystem \<Rightarrow> py_error option \<times> attributes" where
  "load_state a filepath fs =
     (case fs filepath of
        None \<Rightarrow> (Some FileNotFoundError, a)
      | Some NotJson \<Rightarrow> (Some JSONDecodeError, a)
      | Some (Json state) \<Rightarrow>
          (case subscript state ''current_turn'' of
             Inl e \<Rightarrow> (Some e, a)
           | Inr v1 \<Rightarrow>
               (let a1 = a\<lparr>attr_current_turn := v1\<rparr>
                in case subscript state ''sensory'' of
                     Inl e \<Rightarrow> (Some e, a1)
                   | Inr v2 \<Rightarrow>
                       (let a2 = a1\<lparr>attr_turns := v2\<rparr>
                        in case subscript state ''short_term'' of
                             Inl e \<Rightarrow> (Some e, a2)
                           | Inr v3 \<Rightarrow>
                               (let a3 = a2\<lparr>attr_compressed_turns := v3\<rparr>
                                in case subscript state ''long_term'' of
                                     Inl e \<Rightarrow> (Some e, a3)
                                   | Inr v4 \<Rightarrow>
                                       (let a4 = a3\<lparr>attr_memories := v4\<rparr>
                                        in case subscript state ''entity_index'' of
                                             Inl e \<Rightarrow> (Some e, a4)
                                           | Inr v5 \<Rightarrow>
                                               (None, a4\<lparr>attr_entity_index := v5\<rparr>)))))))"

section \<open>hybrid\_retriever.py\<close>

record candidate =
  cand_turn_number :: int
  summary :: string
  cand_entities :: "string list"
  cand_tokens :: nat
  source :: string

text \<open>The dictionary of the clue generator, and the dictionary of the three weights.\<close>

record clues =
  q_clues :: string
  q_entities :: "string list"

record weights =
  w_semantic :: real
  w_entity :: real
  w_recency :: real

text \<open>
  The retriever keeps a reference to the memory system; \<open>memory\<close> is the state of that
  system at the time of the call. \<^verbatim>\<open>weights or {...}\<close> takes the default when no
  dictionary is given.
\<close>

record HybridRetriever =
  memory :: ThreeTierMemorySystem
  weights :: weights

definition HybridRetriever_init :: "ThreeTierMemorySystem \<Rightarrow> weights option \<Rightarrow> HybridRetriever" where
  "HybridRetriever_init memory_system ws =
     \<lparr>memory = memory_system,
      weights = (case ws of
                   None \<Rightarrow> \<lparr>w_semantic = 4 / 10, w_entity = 3 / 10, w_recency = 3 / 10\<rparr>
                 | Some w \<Rightarrow> w)\<rparr>"

definition short_term_candidate :: "compressed_turn \<Rightarrow> candidate" where
  "short_term_candidate turn =
     \<lparr>cand_turn_number = c_turn_number turn,
      summary = compressed_summary turn,
      cand_entities = c_entities turn,
      cand_tokens = compressed_tokens turn,
      source = ''short_term''\<rparr>"

definition long_term_candidate :: "memory_entry \<Rightarrow> candidate" where
  "long_term_candidate mem =
     \<lparr>cand_turn_number = m_turn_number mem,
      summary = ultra_summary mem,
      cand_entities = m_entities mem,
      cand_tokens = m_tokens mem,
      source = ''long_term''\<rparr>"

definition get_candidate_memories :: "ThreeTierMemorySystem \<Rightarrow> candidate list" where
  "get_candidate_memories sys =
     map short_term_candidate (compressed_turns (short_term sys)) @
     map long_term_candidate (memories (long_term sys))"

definition stop_words :: "string set" where
  "stop_words = set [''the'', ''a'', ''an'', ''and'', ''or'', ''but'', ''in'', ''on'', ''at'',
     ''to'', ''for'', ''of'', ''with'', ''by'', ''from'', ''as'', ''is'', ''was'',
     ''are'', ''were'', ''been'', ''be'', ''have'', ''has'', ''had'']"

definition semantic_similarity :: "string \<Rightarrow> string \<Rightarrow> real" where
  "semantic_similarity text1 text2 =
     (let words1 = set (py_split (py_lower text1)) - stop_words;
          words2 = set (py_split (py_lower text2)) - stop_words
      in if words1 = {} \<or> words2 = {} then 0
         else (let intersection = card (words1 \<inter> words2);
                   union = card (words1 \<union> words2)
               in if union > 0 then real intersection / real union else 0))"

definition entity_overlap :: "string list \<Rightarrow> string list \<Rightarrow> real" where
  "entity_overlap entities1 entities2 =
     (if entities2 = [] then 5 / 10
      else (let set1 = set (map py_lower entities1);
                set2 = set (map py_lower entities2)
            in if set1 = {} then 0
               else real (card (set1 \<inter> set2)) / real (card set2)))"

definition recency_score :: "int \<Rightarrow> int \<Rightarrow> real" where
  "recency_score turn_number cur =
     (let distance = cur - turn_number; scale = 5
      in exp (- real_of_int distance / scale))"

definition compute_hybrid_score :: "HybridRetriever \<Rightarrow> candidate \<Rightarrow> clues \<Rightarrow> real" where
  "compute_hybrid_score r cand cl =
     (let semantic_score = semantic_similarity (summary cand) (q_clues cl);
          entity_score = entity_overlap (cand_entities cand) (q_entities cl);
          recency = recency_score (cand_turn_number cand) (current_turn (memory r))
      in w_semantic (weights r) * semantic_score +
         w_entity (weights r) * entity_score +
         w_recency (weights r) * recency)"

text \<open>
  \<open>retrieve_context\<close>. Python's \<^verbatim>\<open>list.sort\<close> is stable, and so is \<open>sort_key\<close>: elements
  with equal keys keep their order. The key is the negated score.
\<close>

definition retrieve_context :: "HybridRetriever \<Rightarrow> clues \<Rightarrow> int \<Rightarrow> candidate list" where
  "retrieve_context r cl max_results =
     (let candidates = get_candidate_memories (memory r)
      in if candidates = [] then []
         else (let scored_candidates = map (\<lambda>cand. (cand, compute_hybrid_score r cand cl)) candidates;
                   sorted_candidates = sort_key (\<lambda>x. - snd x) scored_candidates;
                   top_results = py_take max_results sorted_candidates
               in map fst top_results))"

section \<open>Notions used in the statements\<close>

text \<open>
  A newly constructed orchestrator, whatever the capacities of its tiers: the tiers and
  the entity index are empty and no turn has been counted.
\<close>

definition fresh :: "ThreeTierMemorySystem \<Rightarrow> bool" where
  "fresh sys =
     (turns (sensory sys) = [] \<and> compressed_turns (short_term sys) = [] \<and>
      memories (long_term sys) = [] \<and> entity_index (long_term sys) = Map.empty \<and>
      current_turn sys = 0)"

text \<open>The turn numbers held by the three tiers, the archive first, the sensory tier last.\<close>

definition all_turn_numbers :: "ThreeTierMemorySystem \<Rightarrow> int list" where
  "all_turn_numbers sys =
     map m_turn_number (memories (long_term sys)) @
     map c_turn_number (compressed_turns (short_term sys)) @
     map s_turn_number (turns (sensory sys))"

text \<open>The ids that the entity index lists for an entity.\<close>

definition index_ids :: "LongTermMemory \<Rightarrow> string \<Rightarrow> int list" where
  "index_ids lt entity = (case entity_index lt entity of None \<Rightarrow> [] | Some ids \<Rightarrow> ids)"

text \<open>
  The turn numbers are increasing from the archive to the sensory tier, and none is
  beyond the turn counter.
\<close>

definition ordered :: "ThreeTierMemorySystem \<Rightarrow> bool" where
  "ordered sys =
     (sorted_wrt (<) (all_turn_numbers sys) \<and>
      (\<forall>k \<in> set (all_turn_numbers sys). k \<le> current_turn sys))"

text \<open>
  The list of the archive inside \<open>archive_turn\<close>, right after the new memory has been
  appended and before the limit is applied, and the test of the limit: these are the
  memories resident at the moment the archive overflows.
\<close>

definition appended ::
  "TokenCounter \<Rightarrow> LongTermMemory \<Rightarrow> compressed_turn \<Rightarrow> llm_compressor \<Rightarrow> memory_entry list" where
  "appended tc lt ct llm =
     memories lt @ [archive_entry tc (int (length (memories lt))) ct (ultra_compress tc ct llm)]"

definition overflows :: "LongTermMemory \<Rightarrow> bool" where
  "overflows lt = (int (length (memories lt)) + 1 > max_memories lt)"

text \<open>
  The part of the recent context that shows one turn verbatim: its number, the user's
  message and the assistant's response as the call gave them.
\<close>

definition verbatim_part :: "int \<Rightarrow> store_call \<Rightarrow> string" where
  "verbatim_part i c =
     ''\<newline>[Turn '' @ str_int i @ '' - Recent]\<newline>User: '' @ user_message c @
     ''\<newline>Assistant: '' @ assistant_response c @ ''\<newline>''"

text \<open>No compressed turn and no archived memory lists an entity, and the index is empty.\<close>

definition no_entities :: "ThreeTierMemorySystem \<Rightarrow> bool" where
  "no_entities sys =
     ((\<forall>ct \<in> set (compressed_turns (short_term sys)). c_entities ct = []) \<and>
      (\<forall>m \<in> set (memories (long_term sys)). m_entities m = []) \<and>
      entity_index (long_term sys) = Map.empty)"

text \<open>Every id listed in the entity index is a natural number.\<close>

definition ids_nonneg :: "(string \<rightharpoonup> int list) \<Rightarrow> bool" where
  "ids_nonneg idx = (\<forall>e ids. idx e = Some ids \<longrightarrow> (\<forall>i \<in> set ids. 0 \<le> i))"

text \<open>A sequence of \<open>archive_turn\<close> calls on the archive, the first call first.\<close>

definition archive_turns ::
  "TokenCounter \<Rightarrow> LongTermMemory \<Rightarrow> (compressed_turn \<times> llm_compressor) list \<Rightarrow> LongTermMemory" where
  "archive_turns tc lt xs = foldl (\<lambda>l (ct, llm). archive_turn tc l ct llm) lt xs"

section \<open>Example inputs\<close>

text \<open>An encoder with one token for each byte of the text.\<close>

definition byte_tokens :: TokenCounter where
  "byte_tokens = \<lparr>encode = map of_char, decode = map char_of\<rparr>"

text \<open>
  The file system that holds one file; a snapshot that holds only the turn counter; a
  snapshot whose five fields all hold values of other types than the state's.
\<close>

definition one_file :: "file_content \<Rightarrow> filesystem" where
  "one_file f = [''state.json'' \<mapsto> f]"

definition counter_only :: "int \<Rightarrow> json" where
  "counter_only n = JObj [''current_turn'' \<mapsto> JNum n]"

definition ill_typed_snapshot :: json where
  "ill_typed_snapshot =
     JObj [''current_turn'' \<mapsto> JStr ''seven'', ''sensory'' \<mapsto> JNum 0,
           ''short_term'' \<mapsto> JNull, ''long_term'' \<mapsto> JBool True,
           ''entity_index'' \<mapsto> JList []]"

text \<open>
  The orchestrator with its three tiers replaced by tiers of capacity 1, and calls of
  \<open>store_turn\<close> whose compressor returns a fixed summary.
\<close>

definition small_system :: ThreeTierMemorySystem where
  "small_system =
     ThreeTierMemorySystem_init\<lparr>sensory := SensoryMemory_init 1,
       short_term := ShortTermMemory_init 1 (1 / 2), long_term := LongTermMemory_init 1\<rparr>"

definition example_call :: "string \<Rightarrow> store_call" where
  "example_call u =
     \<lparr>user_message = u, assistant_response = ''ok'', tool_output = '''',
      entities = Some [''revenue''], now_sensory = ''t1'', now_short_term = ''t2'',
      llm_compressor = (\<lambda>p. Returns ''sum'')\<rparr>"

definition three_calls :: "store_call list" where
  "three_calls = [example_call ''a'', example_call ''b'', example_call ''c'']"

definition eight_calls :: "store_call list" where
  "eight_calls = map example_call [''a'', ''b'', ''c'', ''d'', ''e'', ''f'', ''g'', ''h'']"

definition two_calls :: "store_call list" where
  "two_calls = [example_call ''What is Q1 revenue?'', example_call ''And Q2?'']"

definition four_calls :: "store_call list" where
  "four_calls = map example_call [''a'', ''b'', ''c'', ''d'']"

text \<open>
  The state of the small orchestrator after three calls and a \<open>load_state\<close> that has reset
  the turn counter to 0 and nothing else.
\<close>

definition after_failed_load :: ThreeTierMemorySystem where
  "after_failed_load = (store_turns byte_tokens small_system three_calls)\<lparr>current_turn := 0\<rparr>"

text \<open>Two compressed turns handed to \<open>archive_turn\<close> directly, each with one entity.\<close>

definition example_compressed :: "int \<Rightarrow> string \<Rightarrow> compressed_turn" where
  "example_compressed n e =
     \<lparr>c_turn_number = n, original_tokens = 10, compressed_summary = ''sum'',
      compressed_tokens = 3, c_entities = [e], c_timestamp = ''t2''\<rparr>"

definition two_archived :: "(compressed_turn \<times> llm_compressor) list" where
  "two_archived =
     [(example_compressed 1 ''a'', \<lambda>p. Returns ''u''), (example_compressed 2 ''b'', \<lambda>p. Raises)]"


text \<open>
  A snapshot with all five fields well typed whose entity index lists the id \<open>-1\<close>, and the
  state of a newly constructed orchestrator that has loaded it.
\<close>

definition negative_id_snapshot :: json where
  "negative_id_snapshot =
     JObj [''current_turn'' \<mapsto> JNum 0, ''sensory'' \<mapsto> JList [],
           ''short_term'' \<mapsto> JList [], ''long_term'' \<mapsto> JList [],
           ''entity_index'' \<mapsto> JObj [''x'' \<mapsto> JList [JNum (- 1)]]]"

definition negative_id_state :: ThreeTierMemorySystem where
  "negative_id_state =
     ThreeTierMemorySystem_init\<lparr>long_term :=
       (LongTermMemory_init 300)\<lparr>entity_index := [''x'' \<mapsto> [- 1]]\<rparr>\<rparr>"

text \<open>The dictionary of a first turn, as \<open>store_turn\<close> builds it.\<close>

definition example_turn_data :: turn_data where
  "example_turn_data =
     \<lparr>td_turn_number = 1, td_user_message = ''u'', td_assistant_response = ''ok'',
      td_tool_output = '''', td_entities = []\<rparr>"

text \<open>
  Two calls whose compressor returns the empty text; a retriever on the state after four
  calls whose recency weight is 0; clues with no text and no entities.
\<close>

definition empty_summary_calls :: "store_call list" where
  "empty_summary_calls =
     [(example_call ''u'')\<lparr>llm_compressor := (\<lambda>p. Returns '''')\<rparr>,
      (example_call ''v'')\<lparr>llm_compressor := (\<lambda>p. Returns '''')\<rparr>]"

definition tie_retriever :: HybridRetriever where
  "tie_retriever =
     HybridRetriever_init (store_turns byte_tokens ThreeTierMemorySystem_init four_calls)
       (Some \<lparr>w_semantic = 4 / 10, w_entity = 3 / 10, w_recency = 0\<rparr>)"

definition no_clues :: clues where
  "no_clues = \<lparr>q_clues = '''', q_entities = []\<rparr>"

section \<open>The entity-overlap score\<close>

lemma entity_overlap_formula:
  "entity_overlap es1 es2 =
     (if es2 = [] then 1 / 2
      else if es1 = [] then 0
      else real (card (py_lower ` set es1 \<inter> py_lower ` set es2)) /
           real (card (py_lower ` set es2)))"
  by (simp add: entity_overlap_def Let_def)

lemma entity_overlap_range: "0 \<le> entity_overlap es1 es2 \<and> entity_overlap es1 es2 \<le> 1"
proof (cases "es2 = []")
  case True
  then show ?thesis by (simp add: entity_overlap_def)
next
  case False
  have "card (py_lower ` set es1 \<inter> py_lower ` set es2) \<le> card (py_lower ` set es2)"
    by (rule card_mono) auto
  moreover have "0 < card (py_lower ` set es2)"
    using False by (simp add: card_gt_0_iff)
  ultimately have
    "real (card (py_lower ` set es1 \<inter> py_lower ` set es2)) / real (card (py_lower ` set es2)) \<le> 1"
    by (simp add: divide_le_eq_1)
  then show ?thesis
    using False by (simp add: entity_overlap_def Let_def)
qed

text \<open>
  Claim C5. The entity score of a candidate with entities \<open>es1\<close> for a query with entities
  \<open>es2\<close> is 0.5 when the query has no entities; otherwise it is 0 when the candidate has
  none, and else the number of lower-cased query entities that are also lower-cased
  candidate entities, divided by the number of lower-cased query entities. It lies
  between 0 and 1. (The quotient is taken in the reals; the lower-casing is the ASCII one.)
\<close>

theorem entity_overlap_spec:
  "entity_overlap es1 es2 =
     (if es2 = [] then 1 / 2
      else if es1 = [] then 0
      else real (card (py_lower ` set es1 \<inter> py_lower ` set es2)) /
           real (card (py_lower ` set es2)))
   \<and> 0 \<le> entity_overlap es1 es2 \<and> entity_overlap es1 es2 \<le> 1"
  using entity_overlap_formula entity_overlap_range by blast

text \<open>
  C5 at concrete inputs: one of two query entities matches, whatever its case; an empty
  query gives 0.5; an empty candidate gives 0.
\<close>

theorem entity_overlap_spec_witness:
  "entity_overlap [''Q3'', ''Revenue''] [''q3'', ''churn''] = 1 / 2
   \<and> entity_overlap [''Q3''] [] = 1 / 2
   \<and> entity_overlap [] [''q3''] = 0
   \<and> 0 \<le> entity_overlap [''Q3'', ''Revenue''] [''q3'', ''churn'']
   \<and> entity_overlap [''Q3'', ''Revenue''] [''q3'', ''churn''] \<le> 1"
  using entity_overlap_spec [of "[''Q3'', ''Revenue'']" "[''q3'', ''churn'']"]
    entity_overlap_spec [of "[''Q3'']" "[]"] entity_overlap_spec [of "[]" "[''q3'']"]
  by (simp add: py_lower_def lower_char_def)

section \<open>Export and import\<close>

lemma map_JStr_eq: "map JStr xs = map JStr ys \<longleftrightarrow> xs = ys"
  by (rule inj_map_eq_map) (simp add: inj_def)

lemma map_JNum_eq: "map JNum xs = map JNum ys \<longleftrightarrow> xs = ys"
  by (rule inj_map_eq_map) (simp add: inj_def)

lemma json_of_sensory_turn_inj:
  assumes "json_of_sensory_turn t = json_of_sensory_turn t'"
  shows "t = t'"
proof -
  let ?m = "\<lambda>t. [''turn_number'' \<mapsto> JNum (s_turn_number t),
           ''user_message'' \<mapsto> JStr (s_user_message t),
           ''assistant_response'' \<mapsto> JStr (s_assistant_response t),
           ''tool_output'' \<mapsto> JStr (s_tool_output t),
           ''timestamp'' \<mapsto> JStr (s_timestamp t),
           ''tokens'' \<mapsto> JNum (int (s_tokens t))]"
  have m: "?m t = ?m t'"
    using assms by (simp add: json_of_sensory_turn_def)
  have "s_turn_number t = s_turn_number t'"
    using fun_cong [OF m, of "''turn_number''"] by simp
  moreover have "s_user_message t = s_user_message t'"
    using fun_cong [OF m, of "''user_message''"] by simp
  moreover have "s_assistant_response t = s_assistant_response t'"
    using fun_cong [OF m, of "''assistant_response''"] by simp
  moreover have "s_tool_output t = s_tool_output t'"
    using fun_cong [OF m, of "''tool_output''"] by simp
  moreover have "s_timestamp t = s_timestamp t'"
    using fun_cong [OF m, of "''timestamp''"] by simp
  moreover have "s_tokens t = s_tokens t'"
    using fun_cong [OF m, of "''tokens''"] by simp
  ultimately show ?thesis by simp
qed

lemma json_of_compressed_turn_inj:
  assumes "json_of_compressed_turn t = json_of_compressed_turn t'"
  shows "t = t'"
proof -
  let ?m = "\<lambda>ct. [''turn_number'' \<mapsto> JNum (c_turn_number ct),
           ''original_tokens'' \<mapsto> JNum (int (original_tokens ct)),
           ''compressed_summary'' \<mapsto> JStr (compressed_summary ct),
           ''compressed_tokens'' \<mapsto> JNum (int (compressed_tokens ct)),
           ''entities'' \<mapsto> JList (map JStr (c_entities ct)),
           ''timestamp'' \<mapsto> JStr (c_timestamp ct)]"
  have m: "?m t = ?m t'"
    using assms by (simp add: json_of_compressed_turn_def)
  have "c_turn_number t = c_turn_number t'"
    using fun_cong [OF m, of "''turn_number''"] by simp
  moreover have "original_tokens t = original_tokens t'"
    using fun_cong [OF m, of "''original_tokens''"] by simp
  moreover have "compressed_summary t = compressed_summary t'"
    using fun_cong [OF m, of "''compressed_summary''"] by simp
  moreover have "compressed_tokens t = compressed_tokens t'"
    using fun_cong [OF m, of "''compressed_tokens''"] by simp
  moreover have "c_entities t = c_entities t'"
    using fun_cong [OF m, of "''entities''"] by (simp add: map_JStr_eq)
  moreover have "c_timestamp t = c_timestamp t'"
    using fun_cong [OF m, of "''timestamp''"] by simp
  ultimately show ?thesis by simp
qed

lemma json_of_memory_entry_inj:
  assumes "json_of_memory_entry t = json_of_memory_entry t'"
  shows "t = t'"
proof -
  let ?m = "\<lambda>m. [''id'' \<mapsto> JNum (m_id m),
           ''turn_number'' \<mapsto> JNum (m_turn_number m),
           ''ultra_summary'' \<mapsto> JStr (ultra_summary m),
           ''entities'' \<mapsto> JList (map JStr (m_entities m)),
           ''timestamp'' \<mapsto> JStr (m_timestamp m),
           ''tokens'' \<mapsto> JNum (int (m_tokens m))]"
  have m: "?m t = ?m t'"
    using assms by (simp add: json_of_memory_entry_def)
  have "m_id t = m_id t'"
    using fun_cong [OF m, of "''id''"] by simp
  moreover have "m_turn_number t = m_turn_number t'"
    using fun_cong [OF m, of "''turn_number''"] by simp
  moreover have "ultra_summary t = ultra_summary t'"
    using fun_cong [OF m, of "''ultra_summary''"] by simp
  moreover have "m_entities t = m_entities t'"
    using fun_cong [OF m, of "''entities''"] by (simp add: map_JStr_eq)
  moreover have "m_timestamp t = m_timestamp t'"
    using fun_cong [OF m, of "''timestamp''"] by simp
  moreover have "m_tokens t = m_tokens t'"
    using fun_cong [OF m, of "''tokens''"] by simp
  ultimately show ?thesis by simp
qed

lemma json_of_index_inj:
  assumes "json_of_index idx = json_of_index idx'"
  shows "idx = idx'"
proof (rule ext)
  fix k
  have "map_option (\<lambda>ids. JList (map JNum ids)) (idx k)
      = map_option (\<lambda>ids. JList (map JNum ids)) (idx' k)"
    using assms by (simp add: json_of_index_def fun_eq_iff)
  then show "idx k = idx' k"
    by (cases "idx k"; cases "idx' k") (simp_all add: map_JNum_eq)
qed

lemma attributes_of_eq_iff:
  "attributes_of s = attributes_of sys \<longleftrightarrow>
     turns (sensory s) = turns (sensory sys)
   \<and> compressed_turns (short_term s) = compressed_turns (short_term sys)
   \<and> memories (long_term s) = memories (long_term sys)
   \<and> entity_index (long_term s) = entity_index (long_term sys)
   \<and> current_turn s = current_turn sys"
proof -
  have 1: "map json_of_sensory_turn xs = map json_of_sensory_turn ys \<longleftrightarrow> xs = ys" for xs ys
    by (rule inj_map_eq_map) (rule injI, erule json_of_sensory_turn_inj)
  have 2: "map json_of_compressed_turn xs = map json_of_compressed_turn ys \<longleftrightarrow> xs = ys"
    for xs ys
    by (rule inj_map_eq_map) (rule injI, erule json_of_compressed_turn_inj)
  have 3: "map json_of_memory_entry xs = map json_of_memory_entry ys \<longleftrightarrow> xs = ys" for xs ys
    by (rule inj_map_eq_map) (rule injI, erule json_of_memory_entry_inj)
  have 4: "json_of_index i = json_of_index j \<longleftrightarrow> i = j" for i j
    using json_of_index_inj by blast
  show ?thesis
    unfolding attributes_of_def by (simp add: 1 2 3 4) blast
qed

lemma load_export:
  "load_state other filepath (export_state a filepath fs) = (None, a)"
  by (simp add: load_state_def export_state_def subscript_def)

text \<open>
  Claim C2. Loading the snapshot that \<open>export_state\<close> wrote gives back the exported state:
  loaded into the orchestrator that wrote it, the five attributes are the ones before the
  export and no error is raised; loaded into any other orchestrator, whatever its attributes
  hold, they are afterwards those of the exporting one. The attributes determine the turns of
  the three tiers, the entity index and the turn counter: two states have the same attribute
  values exactly when these five agree. This holds for every state, reachable or not.
\<close>

theorem export_import_round_trip:
  "load_state (attributes_of sys) filepath (export_state (attributes_of sys) filepath fs)
     = (None, attributes_of sys)
   \<and> load_state other filepath (export_state (attributes_of sys) filepath fs)
     = (None, attributes_of sys)
   \<and> (attributes_of s = attributes_of sys \<longleftrightarrow>
        turns (sensory s) = turns (sensory sys)
      \<and> compressed_turns (short_term s) = compressed_turns (short_term sys)
      \<and> memories (long_term s) = memories (long_term sys)
      \<and> entity_index (long_term s) = entity_index (long_term sys)
      \<and> current_turn s = current_turn sys)"
  using attributes_of_eq_iff [of s sys] by (simp add: load_export)

text \<open>
  C2 for the state after eight turns, exported to an empty file system and loaded into a
  newly constructed orchestrator.
\<close>

theorem export_import_round_trip_witness:
  "load_state (attributes_of ThreeTierMemorySystem_init) ''state.json''
     (export_state (attributes_of (store_turns byte_tokens ThreeTierMemorySystem_init eight_calls))
        ''state.json'' Map.empty)
   = (None, attributes_of (store_turns byte_tokens ThreeTierMemorySystem_init eight_calls))"
  using export_import_round_trip [of "store_turns byte_tokens ThreeTierMemorySystem_init eight_calls"
      "''state.json''" Map.empty "attributes_of ThreeTierMemorySystem_init"]
  by simp

text \<open>
  Claim C6, as stated, fails in both halves. A snapshot that has \<open>current_turn\<close> but lacks
  \<open>sensory\<close> makes \<open>load_state\<close> raise \<open>KeyError\<close> after the turn counter has been replaced,
  so the prior state is not left unchanged. A snapshot whose five fields hold values of the
  wrong types (a string for the turn counter, a number, \<open>null\<close>, a truth value and a list for
  the others) raises nothing: all five attributes are replaced by these values.
\<close>

theorem load_state_not_atomic:
  "load_state (attributes_of ThreeTierMemorySystem_init) ''state.json''
     (one_file (Json (counter_only 7)))
     = (Some (KeyError ''sensory''),
        attributes_of (ThreeTierMemorySystem_init\<lparr>current_turn := 7\<rparr>))
   \<and> attributes_of (ThreeTierMemorySystem_init\<lparr>current_turn := 7\<rparr>)
       \<noteq> attributes_of ThreeTierMemorySystem_init
   \<and> load_state (attributes_of ThreeTierMemorySystem_init) ''state.json''
       (one_file (Json ill_typed_snapshot))
     = (None, \<lparr>attr_current_turn = JStr ''seven'', attr_turns = JNum 0,
               attr_compressed_turns = JNull, attr_memories = JBool True,
               attr_entity_index = JList []\<rparr>)"
  by (simp add: load_state_def subscript_def counter_only_def ill_typed_snapshot_def
      one_file_def attributes_of_def ThreeTierMemorySystem_init_def)

text \<open>
  Claim C6, amended. \<open>load_state\<close> raises exactly in the following cases. The file is
  absent (\<open>FileNotFoundError\<close>), is not JSON (\<open>JSONDecodeError\<close>), or holds a JSON value
  that is not an object (\<open>TypeError\<close>): the prior state is left unchanged. The file holds an
  object from which one of the five fields is missing: \<open>KeyError\<close> names the first missing
  field in the order \<open>current_turn\<close>, \<open>sensory\<close>, \<open>short_term\<close>, \<open>long_term\<close>,
  \<open>entity_index\<close>; the attributes of the fields before it have already been replaced by the
  file's values and the others keep their prior values, so the prior state is unchanged only
  when \<open>current_turn\<close> is the missing field. When the object has all five fields, no error is
  raised and the five attributes are replaced by the file's values, whatever JSON values
  these are.
\<close>

theorem load_state_cases:
  "(fs filepath = None \<longrightarrow> load_state a filepath fs = (Some FileNotFoundError, a))
   \<and> (fs filepath = Some NotJson \<longrightarrow> load_state a filepath fs = (Some JSONDecodeError, a))
   \<and> (fs filepath = Some (Json d) \<and> (\<forall>m. d \<noteq> JObj m) \<longrightarrow>
        load_state a filepath fs = (Some TypeError, a))
   \<and> (fs filepath = Some (Json (JObj m)) \<and> m ''current_turn'' = None \<longrightarrow>
        load_state a filepath fs = (Some (KeyError ''current_turn''), a))
   \<and> (fs filepath = Some (Json (JObj m)) \<and> m ''current_turn'' = Some v1
        \<and> m ''sensory'' = None \<longrightarrow>
        load_state a filepath fs = (Some (KeyError ''sensory''), a\<lparr>attr_current_turn := v1\<rparr>))
   \<and> (fs filepath = Some (Json (JObj m)) \<and> m ''current_turn'' = Some v1
        \<and> m ''sensory'' = Some v2 \<and> m ''short_term'' = None \<longrightarrow>
        load_state a filepath fs =
          (Some (KeyError ''short_term''), a\<lparr>attr_current_turn := v1, attr_turns := v2\<rparr>))
   \<and> (fs filepath = Some (Json (JObj m)) \<and> m ''current_turn'' = Some v1
        \<and> m ''sensory'' = Some v2 \<and> m ''short_term'' = Some v3
        \<and> m ''long_term'' = None \<longrightarrow>
        load_state a filepath fs =
          (Some (KeyError ''long_term''),
           a\<lparr>attr_current_turn := v1, attr_turns := v2, attr_compressed_turns := v3\<rparr>))
   \<and> (fs filepath = Some (Json (JObj m)) \<and> m ''current_turn'' = Some v1
        \<and> m ''sensory'' = Some v2 \<and> m ''short_term'' = Some v3
        \<and> m ''long_term'' = Some v4 \<and> m ''entity_index'' = None \<longrightarrow>
        load_state a filepath fs =
          (Some (KeyError ''entity_index''),
           a\<lparr>attr_current_turn := v1, attr_turns := v2, attr_compressed_turns := v3,
             attr_memories := v4\<rparr>))
   \<and> (fs filepath = Some (Json (JObj m)) \<and> m ''current_turn'' = Some v1
        \<and> m ''sensory'' = Some v2 \<and> m ''short_term'' = Some v3
        \<and> m ''long_term'' = Some v4 \<and> m ''entity_index'' = Some v5 \<longrightarrow>
        load_state a filepath fs =
          (None,
           \<lparr>attr_current_turn = v1, attr_turns = v2, attr_compressed_turns = v3,
            attr_memories = v4, attr_entity_index = v5\<rparr>))"
proof -
  have "load_state a filepath fs = (Some TypeError, a)"
    if "fs filepath = Some (Json d)" "\<forall>m. d \<noteq> JObj m"
    using that by (cases d) (simp_all add: load_state_def subscript_def)
  then show ?thesis
    by (simp add: load_state_def subscript_def)
qed

text \<open>
  C6, amended, at concrete inputs: an absent file, a file that is not JSON, a file that
  holds a JSON list, snapshots from which \<open>current_turn\<close> or every field after it is
  missing, and a snapshot with five ill-typed fields.
\<close>

theorem load_state_cases_witness:
  "load_state (attributes_of ThreeTierMemorySystem_init) ''state.json'' Map.empty
     = (Some FileNotFoundError, attributes_of ThreeTierMemorySystem_init)
   \<and> load_state (attributes_of ThreeTierMemorySystem_init) ''state.json'' (one_file NotJson)
     = (Some JSONDecodeError, attributes_of ThreeTierMemorySystem_init)
   \<and> load_state (attributes_of ThreeTierMemorySystem_init) ''state.json''
       (one_file (Json (JList [])))
     = (Some TypeError, attributes_of ThreeTierMemorySystem_init)
   \<and> load_state (attributes_of ThreeTierMemorySystem_init) ''state.json''
       (one_file (Json (JObj Map.empty)))
     = (Some (KeyError ''current_turn''), attributes_of ThreeTierMemorySystem_init)
   \<and> load_state (attributes_of ThreeTierMemorySystem_init) ''state.json''
       (one_file (Json (counter_only 7)))
     = (Some (KeyError ''sensory''),
        (attributes_of ThreeTierMemorySystem_init)\<lparr>attr_current_turn := JNum 7\<rparr>)
   \<and> load_state (attributes_of ThreeTierMemorySystem_init) ''state.json''
       (one_file (Json ill_typed_snapshot))
     = (None, \<lparr>attr_current_turn = JStr ''seven'', attr_turns = JNum 0,
               attr_compressed_turns = JNull, attr_memories = JBool True,
               attr_entity_index = JList []\<rparr>)"
  using
    load_state_cases [of Map.empty "''state.json''" "attributes_of ThreeTierMemorySystem_init"]
    load_state_cases [of "one_file NotJson" "''state.json''"
      "attributes_of ThreeTierMemorySystem_init"]
    load_state_cases [of "one_file (Json (JList []))" "''state.json''"
      "attributes_of ThreeTierMemorySystem_init" "JList []"]
    load_state_cases [of "one_file (Json (JObj Map.empty))" "''state.json''"
      "attributes_of ThreeTierMemorySystem_init" _ Map.empty]
    load_state_cases [of "one_file (Json (counter_only 7))" "''state.json''"
      "attributes_of ThreeTierMemorySystem_init" _
      "[''current_turn'' \<mapsto> JNum 7]" "JNum 7"]
    load_state_cases [of "one_file (Json ill_typed_snapshot)" "''state.json''"
      "attributes_of ThreeTierMemorySystem_init" _
      "[''current_turn'' \<mapsto> JStr ''seven'', ''sensory'' \<mapsto> JNum 0,
        ''short_term'' \<mapsto> JNull, ''long_term'' \<mapsto> JBool True,
        ''entity_index'' \<mapsto> JList []]"
      "JStr ''seven''" "JNum 0" JNull "JBool True" "JList []"]
  by (simp add: one_file_def counter_only_def ill_typed_snapshot_def)

section \<open>Turn numbers across the tiers\<close>

lemma store_turns_Nil: "store_turns tc sys [] = sys"
  by (simp add: store_turns_def)

lemma store_turns_snoc: "store_turns tc sys (cs @ [c]) = store_turn tc (store_turns tc sys cs) c"
  by (simp add: store_turns_def)

lemma SensoryMemory_store_numbers:
  assumes "SensoryMemory_store tc now sm td = (sm', p)"
  shows "(case p of None \<Rightarrow> [] | Some t \<Rightarrow> [s_turn_number t]) @ map s_turn_number (turns sm')
         = map s_turn_number (turns sm) @ [td_turn_number td]"
  using assms
  by (cases "turns sm")
     (auto simp: SensoryMemory_store_def Let_def sensory_entry_def split: if_splits)

lemma compress_and_store_numbers:
  assumes "compress_and_store tc now st t llm = (st', p)"
  shows "(case p of None \<Rightarrow> [] | Some ct \<Rightarrow> [c_turn_number ct]) @ map c_turn_number (compressed_turns st')
         = map c_turn_number (compressed_turns st) @ [s_turn_number t]"
  using assms
  by (cases "compressed_turns st")
     (auto simp: compress_and_store_def Let_def compressed_entry_def split: if_splits)

lemma archive_turn_memories:
  "memories (archive_turn tc lt ct llm) =
     (if int (length (memories lt)) + 1 > max_memories lt
      then tl (memories lt @ [archive_entry tc (int (length (memories lt))) ct (ultra_compress tc ct llm)])
      else memories lt @ [archive_entry tc (int (length (memories lt))) ct (ultra_compress tc ct llm)])"
  by (simp add: archive_turn_def Let_def)

lemma archive_turn_numbers:
  "map m_turn_number (memories (archive_turn tc lt ct llm)) =
     (if int (length (memories lt)) + 1 > max_memories lt
      then tl (map m_turn_number (memories lt) @ [c_turn_number ct])
      else map m_turn_number (memories lt) @ [c_turn_number ct])"
  by (cases "memories lt") (auto simp: archive_turn_memories archive_entry_def)

lemma store_turn_current_turn: "current_turn (store_turn tc sys c) = current_turn sys + 1"
  by (auto simp: store_turn_def Let_def split: prod.splits option.splits)

lemma chain2:
  assumes "a # A = X @ [b]" and "c # C = Y @ [a]"
  shows "c # C @ A = Y @ X @ [b]"
proof -
  have "c # C @ A = (c # C) @ A" by simp
  also have "\<dots> = Y @ (a # A)" using assms(2) by simp
  finally show ?thesis using assms(1) by simp
qed

lemma store_turn_turn_numbers:
  "all_turn_numbers (store_turn tc sys c) = all_turn_numbers sys @ [current_turn sys + 1] \<and>
     (memories (long_term (store_turn tc sys c)) = memories (long_term sys) \<or>
      (\<exists>e. memories (long_term (store_turn tc sys c)) = memories (long_term sys) @ [e]))
   \<or> all_turn_numbers (store_turn tc sys c) = tl (all_turn_numbers sys @ [current_turn sys + 1]) \<and>
     (\<exists>e. memories (long_term (store_turn tc sys c)) = tl (memories (long_term sys) @ [e]))"
proof -
  obtain sm p where sm: "SensoryMemory_store tc (now_sensory c) (sensory sys)
      (turn_data_of (current_turn sys + 1) c) = (sm, p)"
    by (cases "SensoryMemory_store tc (now_sensory c) (sensory sys)
      (turn_data_of (current_turn sys + 1) c)") auto
  have n1: "(case p of None \<Rightarrow> [] | Some t \<Rightarrow> [s_turn_number t]) @ map s_turn_number (turns sm)
      = map s_turn_number (turns (sensory sys)) @ [current_turn sys + 1]"
    using SensoryMemory_store_numbers [OF sm] by (simp add: turn_data_of_def)
  show ?thesis
  proof (cases p)
    case None
    then show ?thesis
      using sm n1 by (simp add: store_turn_def Let_def all_turn_numbers_def)
  next
    case (Some t)
    obtain st q where st: "compress_and_store tc (now_short_term c) (short_term sys) t (llm_compressor c) = (st, q)"
      by (cases "compress_and_store tc (now_short_term c) (short_term sys) t (llm_compressor c)") auto
    note n2 = compress_and_store_numbers [OF st]
    show ?thesis
    proof (cases q)
      case None
      then show ?thesis
        using sm st Some n1 n2 by (simp add: store_turn_def Let_def all_turn_numbers_def)
    next
      case (Some ct)
      note q = this
      have key: "c_turn_number ct # map c_turn_number (compressed_turns st) @ map s_turn_number (turns sm)
          = map c_turn_number (compressed_turns (short_term sys)) @
            map s_turn_number (turns (sensory sys)) @ [current_turn sys + 1]"
        using n1 n2 \<open>p = Some t\<close> q by (intro chain2) simp_all
      show ?thesis
      proof (cases "int (length (memories (long_term sys))) + 1 > max_memories (long_term sys)")
        case True
        have "all_turn_numbers (store_turn tc sys c) =
              tl (map m_turn_number (memories (long_term sys)) @ [c_turn_number ct]) @
              map c_turn_number (compressed_turns st) @ map s_turn_number (turns sm)"
          using sm st \<open>p = Some t\<close> q True
          by (simp add: store_turn_def Let_def all_turn_numbers_def archive_turn_numbers)
        also have "\<dots> = tl (all_turn_numbers sys @ [current_turn sys + 1])"
          using key [symmetric]
          by (cases "memories (long_term sys)") (simp_all add: all_turn_numbers_def)
        finally show ?thesis
          using sm st \<open>p = Some t\<close> q True
          by (auto simp: store_turn_def Let_def archive_turn_memories)
      next
        case False
        have "all_turn_numbers (store_turn tc sys c) =
              (map m_turn_number (memories (long_term sys)) @ [c_turn_number ct]) @
              map c_turn_number (compressed_turns st) @ map s_turn_number (turns sm)"
          using sm st \<open>p = Some t\<close> q False
          by (simp add: store_turn_def Let_def all_turn_numbers_def archive_turn_numbers)
        also have "\<dots> = all_turn_numbers sys @ [current_turn sys + 1]"
          using key by (simp add: all_turn_numbers_def)
        finally show ?thesis
          using sm st \<open>p = Some t\<close> q False
          by (auto simp: store_turn_def Let_def archive_turn_memories)
      qed
    qed
  qed
qed

lemma fresh_ordered: "fresh sys \<Longrightarrow> ordered sys"
  by (simp add: fresh_def ordered_def all_turn_numbers_def)

lemma sorted_wrt_tl: "sorted_wrt P xs \<Longrightarrow> sorted_wrt P (tl xs)"
  by (cases xs) simp_all

lemma in_set_tl: "x \<in> set (tl xs) \<Longrightarrow> x \<in> set xs"
  by (cases xs) simp_all

lemma ordered_store_turn:
  assumes "ordered sys"
  shows "ordered (store_turn tc sys c)"
proof -
  let ?xs = "all_turn_numbers sys @ [current_turn sys + 1]"
  have s: "sorted_wrt (<) ?xs"
    using assms by (fastforce simp: ordered_def sorted_wrt_append)
  have b: "\<forall>k \<in> set ?xs. k \<le> current_turn sys + 1"
    using assms by (fastforce simp: ordered_def)
  have "all_turn_numbers (store_turn tc sys c) = ?xs \<or>
        all_turn_numbers (store_turn tc sys c) = tl ?xs"
    using store_turn_turn_numbers [of tc sys c] by blast
  then show ?thesis
  proof
    assume "all_turn_numbers (store_turn tc sys c) = ?xs"
    then show ?thesis
      using s b by (simp add: ordered_def store_turn_current_turn)
  next
    assume e: "all_turn_numbers (store_turn tc sys c) = tl ?xs"
    have "sorted_wrt (<) (tl ?xs)"
      using s by (rule sorted_wrt_tl)
    moreover have "\<forall>k \<in> set (tl ?xs). k \<le> current_turn sys + 1"
      using b in_set_tl by fast
    ultimately show ?thesis
      using e by (simp add: ordered_def store_turn_current_turn)
  qed
qed

lemma ordered_store_turns: "ordered sys \<Longrightarrow> ordered (store_turns tc sys cs)"
  by (induction cs rule: rev_induct) (simp_all add: store_turns_Nil store_turns_snoc ordered_store_turn)

lemma sorted_hd_less:
  "sorted_wrt (<) (map f xs) \<Longrightarrow> y \<in> set (tl xs) \<Longrightarrow> f (hd xs) < f y"
  by (cases xs) auto

lemma popped_from_sensory:
  assumes "SensoryMemory_store tc now sm td = (sm', Some t)"
  shows "s_turn_number t \<in> set (map s_turn_number (turns sm)) \<union> {td_turn_number td}"
  using assms
  by (cases "turns sm")
     (auto simp: SensoryMemory_store_def Let_def sensory_entry_def split: if_splits)

lemma popped_from_short_term:
  assumes "compress_and_store tc now st t llm = (st', Some ct)"
  shows "c_turn_number ct \<in> set (map c_turn_number (compressed_turns st)) \<union> {s_turn_number t}"
  using assms
  by (cases "compressed_turns st")
     (auto simp: compress_and_store_def Let_def compressed_entry_def split: if_splits)

lemma ordered_archive_below:
  assumes "ordered sys" and "m \<in> set (memories (long_term sys))"
  shows "k \<in> set (map c_turn_number (compressed_turns (short_term sys))) \<Longrightarrow> m_turn_number m < k"
    and "k \<in> set (map s_turn_number (turns (sensory sys))) \<Longrightarrow> m_turn_number m < k"
    and "m_turn_number m < current_turn sys + 1"
proof -
  have s: "sorted_wrt (<) (map m_turn_number (memories (long_term sys)) @
     (map c_turn_number (compressed_turns (short_term sys)) @
      map s_turn_number (turns (sensory sys))))"
    using assms(1) by (simp add: ordered_def all_turn_numbers_def)
  have in_m: "m_turn_number m \<in> set (map m_turn_number (memories (long_term sys)))"
    using assms(2) by simp
  have lt: "m_turn_number m < y"
    if "y \<in> set (map c_turn_number (compressed_turns (short_term sys)) @
      map s_turn_number (turns (sensory sys)))" for y
    using s in_m that unfolding sorted_wrt_append by blast
  show "k \<in> set (map c_turn_number (compressed_turns (short_term sys))) \<Longrightarrow> m_turn_number m < k"
    using lt [of k] by simp
  show "k \<in> set (map s_turn_number (turns (sensory sys))) \<Longrightarrow> m_turn_number m < k"
    using lt [of k] by simp
  have "m_turn_number m \<in> set (all_turn_numbers sys)"
    using assms(2) by (simp add: all_turn_numbers_def)
  then have "m_turn_number m \<le> current_turn sys"
    using assms(1) by (simp add: ordered_def)
  then show "m_turn_number m < current_turn sys + 1" by simp
qed

lemma store_turn_long_term:
  "long_term (store_turn tc sys c) = long_term sys
   \<or> (\<exists>ct. long_term (store_turn tc sys c) = archive_turn tc (long_term sys) ct (llm_compressor c)
         \<and> (ordered sys \<longrightarrow> (\<forall>m \<in> set (memories (long_term sys)).
               m_turn_number m < c_turn_number ct)))"
proof -
  obtain sm p where sm: "SensoryMemory_store tc (now_sensory c) (sensory sys)
      (turn_data_of (current_turn sys + 1) c) = (sm, p)"
    by (cases "SensoryMemory_store tc (now_sensory c) (sensory sys)
      (turn_data_of (current_turn sys + 1) c)") auto
  show ?thesis
  proof (cases p)
    case None
    then show ?thesis
      using sm by (simp add: store_turn_def Let_def)
  next
    case (Some t)
    note p = this
    obtain st q where st: "compress_and_store tc (now_short_term c) (short_term sys) t (llm_compressor c) = (st, q)"
      by (cases "compress_and_store tc (now_short_term c) (short_term sys) t (llm_compressor c)") auto
    show ?thesis
    proof (cases q)
      case None
      then show ?thesis
        using sm st p by (simp add: store_turn_def Let_def)
    next
      case (Some ct)
      have lt: "long_term (store_turn tc sys c) = archive_turn tc (long_term sys) ct (llm_compressor c)"
        using sm st p Some by (simp add: store_turn_def Let_def)
      have t: "s_turn_number t \<in> set (map s_turn_number (turns (sensory sys))) \<union> {current_turn sys + 1}"
        using popped_from_sensory [OF sm [unfolded p]] by (simp add: turn_data_of_def)
      have ct: "c_turn_number ct \<in> set (map c_turn_number (compressed_turns (short_term sys))) \<union> {s_turn_number t}"
        using popped_from_short_term [OF st [unfolded Some]] by simp
      have "m_turn_number m < c_turn_number ct"
        if o: "ordered sys" and m: "m \<in> set (memories (long_term sys))" for m
      proof -
        note b = ordered_archive_below [OF o m]
        from ct show ?thesis
        proof
          assume "c_turn_number ct \<in> set (map c_turn_number (compressed_turns (short_term sys)))"
          then show ?thesis by (rule b(1))
        next
          assume "c_turn_number ct \<in> {s_turn_number t}"
          then have e: "c_turn_number ct = s_turn_number t" by simp
          from t show ?thesis
          proof
            assume "s_turn_number t \<in> set (map s_turn_number (turns (sensory sys)))"
            then show ?thesis unfolding e by (rule b(2))
          next
            assume "s_turn_number t \<in> {current_turn sys + 1}"
            then show ?thesis using b(3) e by simp
          qed
        qed
      qed
      then show ?thesis
        using lt by blast
    qed
  qed
qed

lemma ordered_appended:
  assumes "ordered sys"
    and "\<forall>m \<in> set (memories (long_term sys)). m_turn_number m < c_turn_number ct"
  shows "sorted_wrt (<) (map m_turn_number (appended tc (long_term sys) ct llm))"
proof -
  have "sorted_wrt (<) (map m_turn_number (memories (long_term sys)))"
    using assms(1) by (simp add: ordered_def all_turn_numbers_def sorted_wrt_append)
  then show ?thesis
    using assms(2) by (simp add: appended_def archive_entry_def sorted_wrt_append)
qed

text \<open>
  Claim C8, amended. \<open>archive_turn\<close> appends the new memory and, when the list is then
  longer than \<open>max_memories\<close>, discards the first element of the list and nothing else:
  the archive is first in, first out by position. A \<open>store_turn\<close> call leaves the archive
  as it is or calls \<open>archive_turn\<close> once. When the turn numbers increase from the archive
  through the short-term tier to the sensory tier and none exceeds the turn counter
  (\<open>ordered\<close>), the first element has a smaller turn number than every other memory resident
  at the overflow, the new one included. Every state reached by \<open>store_turn\<close> calls alone
  from a newly constructed orchestrator is ordered.
\<close>

theorem archive_discards_first:
  "memories (archive_turn tc lt ct llm) =
     (if overflows lt then tl (appended tc lt ct llm) else appended tc lt ct llm)
   \<and> (long_term (store_turn tc sys c) = long_term sys
      \<or> (\<exists>ct'. long_term (store_turn tc sys c)
                  = archive_turn tc (long_term sys) ct' (llm_compressor c)
            \<and> (ordered sys \<longrightarrow>
                 (\<forall>m' \<in> set (tl (appended tc (long_term sys) ct' (llm_compressor c))).
                    m_turn_number (hd (appended tc (long_term sys) ct' (llm_compressor c)))
                      < m_turn_number m'))))
   \<and> (fresh sys0 \<longrightarrow> ordered (store_turns tc sys0 cs))"
proof -
  have 1: "memories (archive_turn tc lt ct llm) =
     (if overflows lt then tl (appended tc lt ct llm) else appended tc lt ct llm)"
    by (simp add: archive_turn_def Let_def appended_def overflows_def)
  have 2: "long_term (store_turn tc sys c) = long_term sys
      \<or> (\<exists>ct'. long_term (store_turn tc sys c)
                  = archive_turn tc (long_term sys) ct' (llm_compressor c)
            \<and> (ordered sys \<longrightarrow>
                 (\<forall>m' \<in> set (tl (appended tc (long_term sys) ct' (llm_compressor c))).
                    m_turn_number (hd (appended tc (long_term sys) ct' (llm_compressor c)))
                      < m_turn_number m')))"
    using store_turn_long_term [of tc sys c]
  proof
    assume "long_term (store_turn tc sys c) = long_term sys"
    then show ?thesis by (rule disjI1)
  next
    assume "\<exists>ct. long_term (store_turn tc sys c) = archive_turn tc (long_term sys) ct (llm_compressor c)
         \<and> (ordered sys \<longrightarrow> (\<forall>m \<in> set (memories (long_term sys)).
               m_turn_number m < c_turn_number ct))"
    then obtain ct' where a: "long_term (store_turn tc sys c)
          = archive_turn tc (long_term sys) ct' (llm_compressor c)"
      and b: "ordered sys \<longrightarrow> (\<forall>m \<in> set (memories (long_term sys)).
               m_turn_number m < c_turn_number ct')"
      by blast
    have "\<forall>m' \<in> set (tl (appended tc (long_term sys) ct' (llm_compressor c))).
            m_turn_number (hd (appended tc (long_term sys) ct' (llm_compressor c)))
              < m_turn_number m'"
      if o: "ordered sys"
    proof
      fix m'
      assume m': "m' \<in> set (tl (appended tc (long_term sys) ct' (llm_compressor c)))"
      have "sorted_wrt (<) (map m_turn_number (appended tc (long_term sys) ct' (llm_compressor c)))"
        using o b by (intro ordered_appended) simp_all
      from sorted_hd_less [OF this m']
      show "m_turn_number (hd (appended tc (long_term sys) ct' (llm_compressor c)))
              < m_turn_number m'" .
    qed
    with a show ?thesis by blast
  qed
  have 3: "fresh sys0 \<longrightarrow> ordered (store_turns tc sys0 cs)"
    by (simp add: fresh_ordered ordered_store_turns)
  show ?thesis
    using 1 2 3 by (intro conjI) assumption+
qed

lemma compress_and_store_entities:
  assumes "compress_and_store tc now st t llm = (st', p)"
    and "\<forall>ct \<in> set (compressed_turns st). c_entities ct = []"
  shows "(\<forall>ct \<in> set (compressed_turns st'). c_entities ct = []) \<and>
         (\<forall>ct. p = Some ct \<longrightarrow> c_entities ct = [])"
  using assms
  by (cases "compressed_turns st")
     (auto simp: compress_and_store_def Let_def compressed_entry_def sensory_get_entities_def
           split: if_splits)

lemma archive_turn_no_entities:
  assumes "c_entities ct = []" and "\<forall>m \<in> set (memories lt). m_entities m = []"
  shows "(\<forall>m \<in> set (memories (archive_turn tc lt ct llm)). m_entities m = []) \<and>
         entity_index (archive_turn tc lt ct llm) = entity_index lt"
  using assms
  by (cases "memories lt") (auto simp: archive_turn_def Let_def archive_entry_def)

lemma no_entities_store_turn:
  assumes "no_entities sys"
  shows "no_entities (store_turn tc sys c)"
proof -
  obtain sm p where sm: "SensoryMemory_store tc (now_sensory c) (sensory sys)
      (turn_data_of (current_turn sys + 1) c) = (sm, p)"
    by (cases "SensoryMemory_store tc (now_sensory c) (sensory sys)
      (turn_data_of (current_turn sys + 1) c)") auto
  show ?thesis
  proof (cases p)
    case None
    then show ?thesis
      using sm assms by (simp add: store_turn_def Let_def no_entities_def)
  next
    case (Some t)
    obtain st q where st: "compress_and_store tc (now_short_term c) (short_term sys) t (llm_compressor c) = (st, q)"
      by (cases "compress_and_store tc (now_short_term c) (short_term sys) t (llm_compressor c)") auto
    have ce: "(\<forall>ct \<in> set (compressed_turns st). c_entities ct = []) \<and>
         (\<forall>ct. q = Some ct \<longrightarrow> c_entities ct = [])"
      using compress_and_store_entities [OF st] assms by (simp add: no_entities_def)
    show ?thesis
    proof (cases q)
      case None
      then show ?thesis
        using sm st Some ce assms by (simp add: store_turn_def Let_def no_entities_def)
    next
      case (Some ct)
      then have "c_entities ct = []" using ce by simp
      then have "(\<forall>m \<in> set (memories (archive_turn tc (long_term sys) ct (llm_compressor c))). m_entities m = []) \<and>
         entity_index (archive_turn tc (long_term sys) ct (llm_compressor c)) = entity_index (long_term sys)"
        using assms by (intro archive_turn_no_entities) (simp_all add: no_entities_def)
      then show ?thesis
        using sm st \<open>p = Some t\<close> Some ce assms by (simp add: store_turn_def Let_def no_entities_def)
    qed
  qed
qed

lemma fresh_no_entities: "fresh sys \<Longrightarrow> no_entities sys"
  by (simp add: fresh_def no_entities_def)

lemma no_entities_store_turns: "no_entities sys \<Longrightarrow> no_entities (store_turns tc sys cs)"
  by (induction cs rule: rev_induct) (simp_all add: store_turns_Nil store_turns_snoc no_entities_store_turn)

lemma fresh_init: "fresh ThreeTierMemorySystem_init"
  by (simp add: fresh_def ThreeTierMemorySystem_init_def SensoryMemory_init_def
      ShortTermMemory_init_def LongTermMemory_init_def)

section \<open>Examples of the archive\<close>

lemma small_3: "memories (long_term (store_turns byte_tokens small_system three_calls))
  = [\<lparr>m_id = 0, m_turn_number = 1, ultra_summary = ''sum'', m_entities = [], m_timestamp = ''t2'', m_tokens = 3\<rparr>]"
  by code_simp

lemma small_4: "memories (long_term (store_turn byte_tokens (store_turns byte_tokens small_system three_calls) (example_call ''d'')))
  = [\<lparr>m_id = 1, m_turn_number = 2, ultra_summary = ''sum'', m_entities = [], m_timestamp = ''t2'', m_tokens = 3\<rparr>]"
  by code_simp

lemma small_max: "max_memories (long_term (store_turns byte_tokens small_system three_calls)) = 1"
  by code_simp

lemma fresh_small: "fresh small_system"
  by (simp add: fresh_def small_system_def ThreeTierMemorySystem_init_def SensoryMemory_init_def
      ShortTermMemory_init_def LongTermMemory_init_def)

text \<open>
  C8, amended, on the orchestrator with tiers of capacity 1: after three calls the state is
  ordered and the archive holds turn 1 and is full; the fourth call is an \<open>archive_turn\<close>
  that discards turn 1, the first and smallest of the residents, and keeps turn 2.
\<close>

theorem archive_discards_first_witness:
  "fresh small_system
   \<and> ordered (store_turns byte_tokens small_system three_calls)
   \<and> map m_turn_number (memories (long_term
       (store_turns byte_tokens small_system three_calls))) = [1]
   \<and> overflows (long_term (store_turns byte_tokens small_system three_calls))
   \<and> map m_turn_number (memories (long_term
       (store_turn byte_tokens (store_turns byte_tokens small_system three_calls)
          (example_call ''d'')))) = [2]
   \<and> (\<exists>ct'. long_term (store_turn byte_tokens (store_turns byte_tokens small_system three_calls)
                (example_call ''d''))
              = archive_turn byte_tokens
                  (long_term (store_turns byte_tokens small_system three_calls)) ct'
                  (llm_compressor (example_call ''d''))
         \<and> (\<forall>m' \<in> set (tl (appended byte_tokens
                  (long_term (store_turns byte_tokens small_system three_calls)) ct'
                  (llm_compressor (example_call ''d'')))).
               m_turn_number (hd (appended byte_tokens
                  (long_term (store_turns byte_tokens small_system three_calls)) ct'
                  (llm_compressor (example_call ''d''))))
                 < m_turn_number m'))"
proof -
  let ?s = "store_turns byte_tokens small_system three_calls"
  let ?s' = "store_turn byte_tokens ?s (example_call ''d'')"
  note th = archive_discards_first [of byte_tokens "long_term ?s" "example_compressed 2 ''b''"
      "\<lambda>p. Raises" ?s "example_call ''d''" small_system three_calls]
  from th have "fresh small_system \<longrightarrow> ordered ?s" by (elim conjE)
  then have o: "ordered ?s" using fresh_small by simp
  have ne: "long_term ?s' \<noteq> long_term ?s"
  proof
    assume "long_term ?s' = long_term ?s"
    then have "memories (long_term ?s') = memories (long_term ?s)" by simp
    then show False unfolding small_3 small_4 by simp
  qed
  from th have "long_term ?s' = long_term ?s
      \<or> (\<exists>ct'. long_term ?s' = archive_turn byte_tokens (long_term ?s) ct'
                  (llm_compressor (example_call ''d''))
            \<and> (ordered ?s \<longrightarrow>
                 (\<forall>m' \<in> set (tl (appended byte_tokens (long_term ?s) ct'
                      (llm_compressor (example_call ''d'')))).
                    m_turn_number (hd (appended byte_tokens (long_term ?s) ct'
                      (llm_compressor (example_call ''d''))))
                      < m_turn_number m')))"
    by (elim conjE)
  then have "\<exists>ct'. long_term ?s' = archive_turn byte_tokens (long_term ?s) ct'
                  (llm_compressor (example_call ''d''))
            \<and> (ordered ?s \<longrightarrow>
                 (\<forall>m' \<in> set (tl (appended byte_tokens (long_term ?s) ct'
                      (llm_compressor (example_call ''d'')))).
                    m_turn_number (hd (appended byte_tokens (long_term ?s) ct'
                      (llm_compressor (example_call ''d''))))
                      < m_turn_number m'))"
    using ne by (elim disjE) simp_all
  then obtain ct' where a: "long_term ?s' = archive_turn byte_tokens (long_term ?s) ct'
                  (llm_compressor (example_call ''d''))"
    and b: "ordered ?s \<longrightarrow>
                 (\<forall>m' \<in> set (tl (appended byte_tokens (long_term ?s) ct'
                      (llm_compressor (example_call ''d'')))).
                    m_turn_number (hd (appended byte_tokens (long_term ?s) ct'
                      (llm_compressor (example_call ''d''))))
                      < m_turn_number m')"
    by (elim exE conjE)
  from b o have c: "\<forall>m' \<in> set (tl (appended byte_tokens (long_term ?s) ct'
                      (llm_compressor (example_call ''d'')))).
                    m_turn_number (hd (appended byte_tokens (long_term ?s) ct'
                      (llm_compressor (example_call ''d''))))
                      < m_turn_number m'"
    by (rule mp)
  have 1: "map m_turn_number (memories (long_term ?s)) = [1]"
    unfolding small_3 by simp
  have 2: "overflows (long_term ?s)"
    unfolding overflows_def small_3 small_max by simp
  have 3: "map m_turn_number (memories (long_term ?s')) = [2]"
    unfolding small_4 by simp
  from a c have 4: "\<exists>ct'. long_term ?s' = archive_turn byte_tokens (long_term ?s) ct'
                  (llm_compressor (example_call ''d''))
         \<and> (\<forall>m' \<in> set (tl (appended byte_tokens (long_term ?s) ct'
                      (llm_compressor (example_call ''d'')))).
                    m_turn_number (hd (appended byte_tokens (long_term ?s) ct'
                      (llm_compressor (example_call ''d''))))
                      < m_turn_number m')"
    by (intro exI [of _ ct'] conjI)
  show ?thesis
    using fresh_small o 1 2 3 4 by (intro conjI) assumption+
qed

lemma failed_load_tiers:
  "map m_turn_number (memories (long_term (store_turns byte_tokens after_failed_load two_calls))) = [3]"
  "map c_turn_number (compressed_turns (short_term (store_turns byte_tokens after_failed_load two_calls))) = [1]"
  "map s_turn_number (turns (sensory (store_turns byte_tokens after_failed_load two_calls))) = [2]"
  "map m_turn_number (memories (long_term (store_turn byte_tokens
     (store_turns byte_tokens after_failed_load two_calls) (example_call ''f'')))) = [1]"
  by code_simp+

lemma attributes_of_current_turn:
  "attributes_of (sys\<lparr>current_turn := n\<rparr>) = (attributes_of sys)\<lparr>attr_current_turn := JNum n\<rparr>"
  by (simp add: attributes_of_def)

text \<open>
  Claim C8, as stated, fails. On the orchestrator with tiers of capacity 1, three calls
  are followed by a \<open>load_state\<close> of a snapshot that holds only \<open>current_turn\<close>, 0: the call
  raises \<open>KeyError\<close> and has reset the turn counter. After two more calls the archive holds
  turn 3, the short-term tier turn 1 and the sensory tier turn 2. The next call archives
  turn 1 and the archive overflows: the memory discarded is turn 3, and turn 1, resident at
  that moment and smaller, stays.
\<close>

theorem archive_discards_larger_turn_number:
  "fresh small_system
   \<and> load_state (attributes_of (store_turns byte_tokens small_system three_calls))
       ''state.json'' (one_file (Json (counter_only 0)))
     = (Some (KeyError ''sensory''), attributes_of after_failed_load)
   \<and> map m_turn_number (memories (long_term
       (store_turns byte_tokens after_failed_load two_calls))) = [3]
   \<and> map c_turn_number (compressed_turns (short_term
       (store_turns byte_tokens after_failed_load two_calls))) = [1]
   \<and> map s_turn_number (turns (sensory
       (store_turns byte_tokens after_failed_load two_calls))) = [2]
   \<and> map m_turn_number (memories (long_term
       (store_turn byte_tokens (store_turns byte_tokens after_failed_load two_calls)
          (example_call ''f'')))) = [1]"
proof -
  have "load_state (attributes_of (store_turns byte_tokens small_system three_calls))
       ''state.json'' (one_file (Json (counter_only 0)))
     = (Some (KeyError ''sensory''), attributes_of after_failed_load)"
    unfolding after_failed_load_def attributes_of_current_turn
    by (simp add: load_state_def subscript_def one_file_def counter_only_def)
  then show ?thesis
    using fresh_small failed_load_tiers by (intro conjI) assumption+
qed

section \<open>Entities named in a call\<close>





text \<open>
  Whatever entities the calls name, no compressed turn and no archived memory lists an
  entity and the index stays empty: the dictionary that the sensory tier hands on has no
  key \<open>entities\<close>.
\<close>

lemma store_turns_drop_entities: "fresh sys0 \<Longrightarrow> no_entities (store_turns tc sys0 cs)"
  by (simp add: fresh_no_entities no_entities_store_turns)


section \<open>Looking up an entity\<close>

lemma ids_nonnegD: "ids_nonneg idx \<Longrightarrow> idx e = Some ids \<Longrightarrow> i \<in> set ids \<Longrightarrow> 0 \<le> i"
  unfolding ids_nonneg_def by blast

lemma index_ids_nonneg:
  assumes "ids_nonneg (entity_index lt)" and "i \<in> set (index_ids lt e)"
  shows "0 \<le> i"
proof (cases "entity_index lt e")
  case None
  then show ?thesis using assms(2) by (simp add: index_ids_def)
next
  case (Some ids)
  then have "i \<in> set ids" using assms(2) by (simp add: index_ids_def)
  from ids_nonnegD [OF assms(1) Some this] show ?thesis .
qed

lemma memories_at_nonneg:
  "\<forall>i \<in> set ids. 0 \<le> i \<Longrightarrow>
   memories_at ms ids = Inr (map (\<lambda>i. ms ! nat i) (filter (\<lambda>i. i < int (length ms)) ids))"
  by (induction ids) (simp_all add: py_index_def)

lemma ids_nonneg_upd:
  assumes "ids_nonneg idx" and "\<forall>i \<in> set l. 0 \<le> i"
  shows "ids_nonneg (idx(e \<mapsto> l))"
  unfolding ids_nonneg_def
proof (intro allI impI ballI)
  fix e' ids i
  assume a: "(idx(e \<mapsto> l)) e' = Some ids" and i: "i \<in> set ids"
  show "0 \<le> i"
  proof (cases "e' = e")
    case True
    with a have "ids = l" by simp
    with i assms(2) show ?thesis by blast
  next
    case False
    with a have "idx e' = Some ids" by simp
    from ids_nonnegD [OF assms(1) this i] show ?thesis .
  qed
qed

lemma index_add_nonneg:
  "0 \<le> mid \<Longrightarrow> ids_nonneg idx \<Longrightarrow> ids_nonneg (index_add es mid idx)"
proof (induction es arbitrary: idx)
  case Nil
  then show ?case by simp
next
  case (Cons e es)
  have "\<forall>i \<in> set ((case idx e of None \<Rightarrow> [] | Some ids \<Rightarrow> ids) @ [mid]). 0 \<le> i"
  proof (cases "idx e")
    case None
    then show ?thesis using Cons.prems(1) by simp
  next
    case (Some old)
    have "\<forall>i \<in> set old. 0 \<le> i"
      using ids_nonnegD [OF Cons.prems(2) Some] by blast
    then show ?thesis using Some Cons.prems(1) by simp
  qed
  then have "ids_nonneg (idx(e \<mapsto> (case idx e of None \<Rightarrow> [] | Some ids \<Rightarrow> ids) @ [mid]))"
    using Cons.prems(2) by (intro ids_nonneg_upd)
  then show ?case
    using Cons.IH [OF Cons.prems(1)] by simp
qed

lemma index_remove_nonneg:
  "ids_nonneg idx \<Longrightarrow> ids_nonneg (index_remove es oid idx)"
proof (induction es arbitrary: idx)
  case Nil
  then show ?case by simp
next
  case (Cons e es)
  have "ids_nonneg (case idx e of None \<Rightarrow> idx
                    | Some ids \<Rightarrow> idx(e \<mapsto> filter (\<lambda>mid. mid \<noteq> oid) ids))"
  proof (cases "idx e")
    case None
    then show ?thesis using Cons.prems by simp
  next
    case (Some old)
    have "\<forall>i \<in> set (filter (\<lambda>mid. mid \<noteq> oid) old). 0 \<le> i"
      using ids_nonnegD [OF Cons.prems Some] by simp
    then have "ids_nonneg (idx(e \<mapsto> filter (\<lambda>mid. mid \<noteq> oid) old))"
      using Cons.prems by (intro ids_nonneg_upd)
    then show ?thesis using Some by simp
  qed
  then show ?case
    using Cons.IH by simp
qed

lemma archive_turn_ids_nonneg:
  "ids_nonneg (entity_index lt) \<Longrightarrow> ids_nonneg (entity_index (archive_turn tc lt ct llm))"
  by (simp add: archive_turn_def Let_def index_add_nonneg index_remove_nonneg)

lemma archive_turns_ids_nonneg:
  "ids_nonneg (entity_index lt) \<Longrightarrow> ids_nonneg (entity_index (archive_turns tc lt xs))"
  by (induction xs arbitrary: lt)
     (auto simp: archive_turns_def archive_turn_ids_nonneg split: prod.splits)

lemma search_by_entity_nonneg:
  assumes "ids_nonneg (entity_index lt)"
  shows "search_by_entity lt e =
     Inr (map (\<lambda>i. memories lt ! nat i)
            (filter (\<lambda>i. i < int (length (memories lt))) (index_ids lt e)))"
proof -
  have "\<forall>i \<in> set (index_ids lt e). 0 \<le> i"
    by (intro ballI) (erule index_ids_nonneg [OF assms])
  then show ?thesis
    using memories_at_nonneg [of "index_ids lt e" "memories lt"]
    by (simp add: search_by_entity_def index_ids_def)
qed

lemma checked_ids_resident:
  assumes "\<forall>i \<in> set ids. 0 \<le> i"
  shows "set (map (\<lambda>i. ms ! nat i) (filter (\<lambda>i. i < int (length ms)) ids)) \<subseteq> set ms"
  using assms by (auto simp: nat_less_iff)

lemma store_turn_ids_nonneg:
  assumes "ids_nonneg (entity_index (long_term sys))"
  shows "ids_nonneg (entity_index (long_term (store_turn tc sys c)))"
  using store_turn_long_term [of tc sys c]
proof
  assume "long_term (store_turn tc sys c) = long_term sys"
  then show ?thesis using assms by simp
next
  assume "\<exists>ct. long_term (store_turn tc sys c) = archive_turn tc (long_term sys) ct (llm_compressor c)
         \<and> (ordered sys \<longrightarrow> (\<forall>m \<in> set (memories (long_term sys)).
               m_turn_number m < c_turn_number ct))"
  then obtain ct where "long_term (store_turn tc sys c)
      = archive_turn tc (long_term sys) ct (llm_compressor c)"
    by blast
  then show ?thesis
    using archive_turn_ids_nonneg [OF assms] by simp
qed

lemma store_turns_ids_nonneg:
  "ids_nonneg (entity_index (long_term sys)) \<Longrightarrow>
   ids_nonneg (entity_index (long_term (store_turns tc sys cs)))"
  by (induction cs rule: rev_induct)
     (simp_all add: store_turns_Nil store_turns_snoc store_turn_ids_nonneg)

lemma two_archived_a:
  "search_by_entity (archive_turns byte_tokens (LongTermMemory_init 2) two_archived) ''a''
     = Inr [\<lparr>m_id = 0, m_turn_number = 1, ultra_summary = ''u'', m_entities = [''a''],
             m_timestamp = ''t2'', m_tokens = 1\<rparr>]"
  by code_simp

text \<open>
  Claim C10, as stated, fails. A newly constructed orchestrator loads a well-typed
  snapshot whose entity index lists the id \<open>-1\<close> under \<open>x\<close> and whose archive is empty:
  no error is raised by \<open>load_state\<close>. The id passes the check against the number of
  resident memories, \<open>-1 < 0\<close>, and subscripting the empty list with it raises
  \<open>IndexError\<close>.
\<close>

theorem search_by_entity_raises_after_load:
  "load_state (attributes_of ThreeTierMemorySystem_init) ''state.json''
     (one_file (Json negative_id_snapshot))
     = (None, attributes_of negative_id_state)
   \<and> search_by_entity (long_term negative_id_state) ''x'' = Inl IndexError"
proof -
  have "json_of_index [''x'' \<mapsto> [- 1]] = JObj [''x'' \<mapsto> JList [JNum (- 1)]]"
    by (simp add: json_of_index_def fun_eq_iff)
  then have "load_state (attributes_of ThreeTierMemorySystem_init) ''state.json''
     (one_file (Json negative_id_snapshot))
     = (None, attributes_of negative_id_state)"
    by (simp add: load_state_def subscript_def one_file_def negative_id_snapshot_def
        negative_id_state_def attributes_of_def ThreeTierMemorySystem_init_def
        SensoryMemory_init_def ShortTermMemory_init_def LongTermMemory_init_def)
  moreover have "search_by_entity (long_term negative_id_state) ''x'' = Inl IndexError"
    by (simp add: search_by_entity_def negative_id_state_def LongTermMemory_init_def
        py_index_def)
  ultimately show ?thesis by (intro conjI)
qed

text \<open>
  Claim C10, amended. For an entity absent from the index \<open>search_by_entity\<close> returns the
  empty list. When every id listed in the index is non-negative, the call never raises: it
  returns the memories at the positions given by those ids of the entity that are below the
  number of resident memories, and every memory it returns is resident. Every id is
  non-negative in a newly constructed archive, and \<open>archive_turn\<close> and \<open>store_turn\<close> keep
  it so: this is the case in every state reached by \<open>store_turn\<close> calls from a newly
  constructed orchestrator.
\<close>

theorem search_by_entity_total:
  "(entity_index lt e = None \<longrightarrow> search_by_entity lt e = Inr [])
   \<and> (ids_nonneg (entity_index lt) \<longrightarrow>
        search_by_entity lt e =
          Inr (map (\<lambda>i. memories lt ! nat i)
                 (filter (\<lambda>i. i < int (length (memories lt))) (index_ids lt e)))
        \<and> (\<exists>ms. search_by_entity lt e = Inr ms \<and> set ms \<subseteq> set (memories lt)))
   \<and> ids_nonneg (entity_index (LongTermMemory_init n))
   \<and> (ids_nonneg (entity_index lt) \<longrightarrow> ids_nonneg (entity_index (archive_turn tc lt ct llm)))
   \<and> (ids_nonneg (entity_index (long_term sys)) \<longrightarrow>
        ids_nonneg (entity_index (long_term (store_turn tc sys c))))
   \<and> (fresh sys0 \<longrightarrow> ids_nonneg (entity_index (long_term (store_turns tc sys0 cs))))"
proof -
  have 1: "entity_index lt e = None \<longrightarrow> search_by_entity lt e = Inr []"
    by (simp add: search_by_entity_def)
  have 2: "ids_nonneg (entity_index lt) \<longrightarrow>
        search_by_entity lt e =
          Inr (map (\<lambda>i. memories lt ! nat i)
                 (filter (\<lambda>i. i < int (length (memories lt))) (index_ids lt e)))
        \<and> (\<exists>ms. search_by_entity lt e = Inr ms \<and> set ms \<subseteq> set (memories lt))"
  proof
    assume nn: "ids_nonneg (entity_index lt)"
    have ids: "\<forall>i \<in> set (index_ids lt e). 0 \<le> i"
      by (intro ballI) (erule index_ids_nonneg [OF nn])
    have a: "search_by_entity lt e =
          Inr (map (\<lambda>i. memories lt ! nat i)
                 (filter (\<lambda>i. i < int (length (memories lt))) (index_ids lt e)))"
      using nn by (rule search_by_entity_nonneg)
    have b: "\<exists>ms. search_by_entity lt e = Inr ms \<and> set ms \<subseteq> set (memories lt)"
      using a checked_ids_resident [OF ids] by simp
    from a b show "search_by_entity lt e =
          Inr (map (\<lambda>i. memories lt ! nat i)
                 (filter (\<lambda>i. i < int (length (memories lt))) (index_ids lt e)))
        \<and> (\<exists>ms. search_by_entity lt e = Inr ms \<and> set ms \<subseteq> set (memories lt))"
      by (rule conjI)
  qed
  have 3: "ids_nonneg (entity_index (LongTermMemory_init n))"
    by (simp add: LongTermMemory_init_def ids_nonneg_def)
  have 4: "ids_nonneg (entity_index lt) \<longrightarrow> ids_nonneg (entity_index (archive_turn tc lt ct llm))"
    by (simp add: archive_turn_ids_nonneg)
  have 5: "ids_nonneg (entity_index (long_term sys)) \<longrightarrow>
        ids_nonneg (entity_index (long_term (store_turn tc sys c)))"
    by (simp add: store_turn_ids_nonneg)
  have 6: "fresh sys0 \<longrightarrow> ids_nonneg (entity_index (long_term (store_turns tc sys0 cs)))"
  proof
    assume "fresh sys0"
    then have "ids_nonneg (entity_index (long_term sys0))"
      by (simp add: fresh_def ids_nonneg_def)
    then show "ids_nonneg (entity_index (long_term (store_turns tc sys0 cs)))"
      by (rule store_turns_ids_nonneg)
  qed
  show ?thesis
    using 1 2 3 4 5 6 by (intro conjI) assumption+
qed

text \<open>
  C10, amended, on an archive of capacity 2 after two \<open>archive_turn\<close> calls with the
  entities \<open>a\<close> and \<open>b\<close>: the ids of its index are non-negative, the search for \<open>a\<close>
  returns the first memory, and the search for an entity that no turn named returns the
  empty list.
\<close>

theorem search_by_entity_total_witness:
  "ids_nonneg (entity_index (archive_turns byte_tokens (LongTermMemory_init 2) two_archived))
   \<and> search_by_entity (archive_turns byte_tokens (LongTermMemory_init 2) two_archived) ''a''
     = Inr [\<lparr>m_id = 0, m_turn_number = 1, ultra_summary = ''u'', m_entities = [''a''],
             m_timestamp = ''t2'', m_tokens = 1\<rparr>]
   \<and> (\<exists>ms. search_by_entity (archive_turns byte_tokens (LongTermMemory_init 2) two_archived) ''a''
            = Inr ms
          \<and> set ms \<subseteq> set (memories (archive_turns byte_tokens (LongTermMemory_init 2) two_archived)))
   \<and> entity_index (LongTermMemory_init 2) ''a'' = None
   \<and> search_by_entity (LongTermMemory_init 2) ''a'' = Inr []
   \<and> fresh ThreeTierMemorySystem_init
   \<and> ids_nonneg (entity_index (long_term (store_turns byte_tokens ThreeTierMemorySystem_init eight_calls)))"
proof -
  let ?lt = "archive_turns byte_tokens (LongTermMemory_init 2) two_archived"
  have nn: "ids_nonneg (entity_index ?lt)"
    by (rule archive_turns_ids_nonneg) (simp add: LongTermMemory_init_def ids_nonneg_def)
  note th = search_by_entity_total [of ?lt "''a''" 2 byte_tokens "example_compressed 1 ''a''"
      "\<lambda>p. Raises" ThreeTierMemorySystem_init "example_call ''a''" ThreeTierMemorySystem_init
      eight_calls]
  from th have "ids_nonneg (entity_index ?lt) \<longrightarrow>
        search_by_entity ?lt ''a'' =
          Inr (map (\<lambda>i. memories ?lt ! nat i)
                 (filter (\<lambda>i. i < int (length (memories ?lt))) (index_ids ?lt ''a'')))
        \<and> (\<exists>ms. search_by_entity ?lt ''a'' = Inr ms \<and> set ms \<subseteq> set (memories ?lt))"
    by (elim conjE)
  then have "search_by_entity ?lt ''a'' =
          Inr (map (\<lambda>i. memories ?lt ! nat i)
                 (filter (\<lambda>i. i < int (length (memories ?lt))) (index_ids ?lt ''a'')))
        \<and> (\<exists>ms. search_by_entity ?lt ''a'' = Inr ms \<and> set ms \<subseteq> set (memories ?lt))"
    using nn by (rule mp)
  then have r: "\<exists>ms. search_by_entity ?lt ''a'' = Inr ms \<and> set ms \<subseteq> set (memories ?lt)"
    by (rule conjunct2)
  from th have "fresh ThreeTierMemorySystem_init \<longrightarrow>
      ids_nonneg (entity_index (long_term (store_turns byte_tokens ThreeTierMemorySystem_init eight_calls)))"
    by (elim conjE)
  then have s: "ids_nonneg (entity_index (long_term
      (store_turns byte_tokens ThreeTierMemorySystem_init eight_calls)))"
    using fresh_init by (rule mp)
  have n: "entity_index (LongTermMemory_init 2) ''a'' = None"
    by (simp add: LongTermMemory_init_def)
  from search_by_entity_total [of "LongTermMemory_init 2" "''a''" 2 byte_tokens
      "example_compressed 1 ''a''" "\<lambda>p. Raises" ThreeTierMemorySystem_init "example_call ''a''"
      ThreeTierMemorySystem_init eight_calls]
  have "entity_index (LongTermMemory_init 2) ''a'' = None \<longrightarrow>
      search_by_entity (LongTermMemory_init 2) ''a'' = Inr []"
    by (elim conjE)
  then have e: "search_by_entity (LongTermMemory_init 2) ''a'' = Inr []"
    using n by (rule mp)
  show ?thesis
    using nn two_archived_a r n e fresh_init s by (intro conjI) assumption+
qed

section \<open>Construction\<close>

text \<open>
  Claim C7, as stated, fails. A sensory tier and an archive of capacity 0, a short-term
  tier of capacity \<open>-5\<close> and a retriever with the recency weight \<open>-1\<close> are constructed
  like any other: the constructors return the objects with these values. Nothing is raised
  at call time either: the sensory tier of capacity 0 stores a turn by handing it on at once
  and staying empty.
\<close>

theorem invalid_configuration_accepted:
  "max_turns (SensoryMemory_init 0) = 0
   \<and> st_max_turns (ShortTermMemory_init (- 5) (1 / 2)) = - 5
   \<and> max_memories (LongTermMemory_init 0) = 0
   \<and> w_recency (weights (HybridRetriever_init ThreeTierMemorySystem_init
        (Some \<lparr>w_semantic = 4 / 10, w_entity = 3 / 10, w_recency = - 1\<rparr>))) = - 1
   \<and> SensoryMemory_store byte_tokens ''t1'' (SensoryMemory_init 0) example_turn_data
     = (SensoryMemory_init 0, Some (sensory_entry byte_tokens ''t1'' example_turn_data))"
  by (simp add: SensoryMemory_init_def ShortTermMemory_init_def LongTermMemory_init_def
      HybridRetriever_init_def SensoryMemory_store_def)

text \<open>
  Claim C7, amended. No constructor validates its configuration: a tier is constructed
  with any maximum occupancy, a non-positive one included, and a retriever with any
  weights, negative ones included, and the values are kept as given. No error is raised at
  call time either: an empty tier whose maximum occupancy is not positive hands on, or for
  the archive discards, what it is given and stays empty.
\<close>

theorem constructors_do_not_validate:
  "SensoryMemory_init n = \<lparr>turns = [], max_turns = n\<rparr>
   \<and> ShortTermMemory_init n r = \<lparr>compressed_turns = [], st_max_turns = n, compression_ratio = r\<rparr>
   \<and> LongTermMemory_init n = \<lparr>memories = [], max_memories = n, entity_index = Map.empty\<rparr>
   \<and> HybridRetriever_init sys (Some w) = \<lparr>memory = sys, weights = w\<rparr>
   \<and> (n \<le> 0 \<longrightarrow>
        SensoryMemory_store tc now (SensoryMemory_init n) td
          = (SensoryMemory_init n, Some (sensory_entry tc now td)))
   \<and> (n \<le> 0 \<longrightarrow>
        compress_and_store tc now (ShortTermMemory_init n r) t llm
          = (ShortTermMemory_init n r,
             Some (compressed_entry tc now t (compress_turn tc r t llm))))
   \<and> (n \<le> 0 \<longrightarrow> memories (archive_turn tc (LongTermMemory_init n) ct llm) = [])"
  by (simp add: SensoryMemory_init_def ShortTermMemory_init_def LongTermMemory_init_def
      HybridRetriever_init_def SensoryMemory_store_def compress_and_store_def
      archive_turn_def Let_def)

text \<open>
  C7, amended, for tiers of capacity \<open>-1\<close> and a retriever with three negative weights.
\<close>

theorem constructors_do_not_validate_witness:
  "SensoryMemory_init (- 1) = \<lparr>turns = [], max_turns = - 1\<rparr>
   \<and> HybridRetriever_init ThreeTierMemorySystem_init
        (Some \<lparr>w_semantic = - 1, w_entity = - 2, w_recency = - 3\<rparr>)
     = \<lparr>memory = ThreeTierMemorySystem_init,
        weights = \<lparr>w_semantic = - 1, w_entity = - 2, w_recency = - 3\<rparr>\<rparr>
   \<and> SensoryMemory_store byte_tokens ''t1'' (SensoryMemory_init (- 1)) example_turn_data
     = (SensoryMemory_init (- 1), Some (sensory_entry byte_tokens ''t1'' example_turn_data))
   \<and> memories (archive_turn byte_tokens (LongTermMemory_init (- 1))
        (example_compressed 1 ''a'') (\<lambda>p. Raises)) = []"
proof -
  note th = constructors_do_not_validate [of "- 1" "1 / 2" ThreeTierMemorySystem_init
      "\<lparr>w_semantic = - 1, w_entity = - 2, w_recency = - 3\<rparr>" byte_tokens "''t1''"
      example_turn_data "sensory_entry byte_tokens ''t1'' example_turn_data" "\<lambda>p. Raises"
      "example_compressed 1 ''a''"]
  have n: "(- 1 :: int) \<le> 0" by simp
  from th have 1: "SensoryMemory_init (- 1) = \<lparr>turns = [], max_turns = - 1\<rparr>"
    by (elim conjE)
  from th have 2: "HybridRetriever_init ThreeTierMemorySystem_init
        (Some \<lparr>w_semantic = - 1, w_entity = - 2, w_recency = - 3\<rparr>)
     = \<lparr>memory = ThreeTierMemorySystem_init,
        weights = \<lparr>w_semantic = - 1, w_entity = - 2, w_recency = - 3\<rparr>\<rparr>"
    by (elim conjE)
  from th have "(- 1 :: int) \<le> 0 \<longrightarrow>
      SensoryMemory_store byte_tokens ''t1'' (SensoryMemory_init (- 1)) example_turn_data
     = (SensoryMemory_init (- 1), Some (sensory_entry byte_tokens ''t1'' example_turn_data))"
    by (elim conjE)
  then have 3: "SensoryMemory_store byte_tokens ''t1'' (SensoryMemory_init (- 1)) example_turn_data
     = (SensoryMemory_init (- 1), Some (sensory_entry byte_tokens ''t1'' example_turn_data))"
    using n by (rule mp)
  from th have "(- 1 :: int) \<le> 0 \<longrightarrow>
      memories (archive_turn byte_tokens (LongTermMemory_init (- 1))
        (example_compressed 1 ''a'') (\<lambda>p. Raises)) = []"
    by (elim conjE)
  then have 4: "memories (archive_turn byte_tokens (LongTermMemory_init (- 1))
        (example_compressed 1 ''a'') (\<lambda>p. Raises)) = []"
    using n by (rule mp)
  from 1 2 3 4 show ?thesis by (intro conjI)
qed

section \<open>The first turns\<close>

lemma upto_snoc: "[1..1 + int (length cs)] = [1..int (length cs)] @ [1 + int (length cs)]"
  using upto_rec2 [of 1 "1 + int (length cs)"] by simp

lemma sensory_fill:
  assumes "fresh sys0"
  shows "int (length cs) \<le> max_turns (sensory sys0) \<Longrightarrow>
     store_turns tc sys0 cs =
       sys0\<lparr>current_turn := int (length cs),
            sensory := (sensory sys0)\<lparr>turns :=
              map (\<lambda>(i, c). sensory_entry tc (now_sensory c) (turn_data_of i c))
                (zip [1..int (length cs)] cs)\<rparr>\<rparr>"
proof (induction cs rule: rev_induct)
  case Nil
  then show ?case
    using assms by (simp add: store_turns_Nil fresh_def)
next
  case (snoc c cs)
  have IH: "store_turns tc sys0 cs =
       sys0\<lparr>current_turn := int (length cs),
            sensory := (sensory sys0)\<lparr>turns :=
              map (\<lambda>(i, c). sensory_entry tc (now_sensory c) (turn_data_of i c))
                (zip [1..int (length cs)] cs)\<rparr>\<rparr>"
    using snoc by simp
  have len: "length [1..int (length cs)] = length cs" by simp
  show ?case
    using snoc.prems
    by (simp add: store_turns_snoc IH store_turn_def SensoryMemory_store_def Let_def
        upto_snoc zip_append [OF len] add.commute del: upto.simps)
qed

lemma sensory_part_entry:
  "sensory_part (sensory_entry tc now (turn_data_of i c)) = verbatim_part i c"
  by (simp add: sensory_part_def sensory_entry_def turn_data_of_def verbatim_part_def)

lemma SensoryMemory_get_context_join:
  "SensoryMemory_get_context sm = py_join ''\<newline>'' (map sensory_part (turns sm))"
  by (simp add: SensoryMemory_get_context_def)

text \<open>
  Claim C9. After \<open>N\<close> \<open>store_turn\<close> calls on a newly constructed orchestrator, with \<open>N\<close>
  at most the capacity of the sensory tier, the short-term tier and the archive are empty,
  and the recent context is the header, the \<open>N\<close> turns in the order of the calls, each
  with its number from 1 to \<open>N\<close> and its two messages verbatim, joined by newlines, and
  the heading of the empty short-term part.
\<close>

theorem no_premature_cascade:
  assumes "fresh sys0" and "int (length cs) \<le> max_turns (sensory sys0)"
  shows "compressed_turns (short_term (store_turns tc sys0 cs)) = []
   \<and> memories (long_term (store_turns tc sys0 cs)) = []
   \<and> get_recent_context (store_turns tc sys0 cs) =
       ''\<newline># Recent Conversation Context\<newline>\<newline>## Immediate Context (Verbatim)\<newline>'' @
       py_join ''\<newline>'' (map (\<lambda>(i, c). verbatim_part i c) (zip [1..int (length cs)] cs)) @
       ''\<newline>\<newline>## Short-Term Context (Compressed)\<newline>\<newline>''"
proof -
  note fill = sensory_fill [OF assms]
  have t: "turns (sensory (store_turns tc sys0 cs)) =
      map (\<lambda>(i, c). sensory_entry tc (now_sensory c) (turn_data_of i c))
        (zip [1..int (length cs)] cs)"
    unfolding fill by simp
  have c: "compressed_turns (short_term (store_turns tc sys0 cs)) = []"
    unfolding fill using assms(1) by (simp add: fresh_def)
  have m: "memories (long_term (store_turns tc sys0 cs)) = []"
    unfolding fill using assms(1) by (simp add: fresh_def)
  have parts: "map sensory_part (turns (sensory (store_turns tc sys0 cs))) =
      map (\<lambda>(i, c). verbatim_part i c) (zip [1..int (length cs)] cs)"
    unfolding t by (simp only: map_map o_def split_def sensory_part_entry)
  have ctx: "SensoryMemory_get_context (sensory (store_turns tc sys0 cs)) =
      py_join ''\<newline>'' (map (\<lambda>(i, c). verbatim_part i c) (zip [1..int (length cs)] cs))"
    by (simp only: SensoryMemory_get_context_join parts)
  have st: "ShortTermMemory_get_context (short_term (store_turns tc sys0 cs)) = ''''"
    using c by (simp add: ShortTermMemory_get_context_def)
  have g: "get_recent_context (store_turns tc sys0 cs) =
       ''\<newline># Recent Conversation Context\<newline>\<newline>## Immediate Context (Verbatim)\<newline>'' @
       py_join ''\<newline>'' (map (\<lambda>(i, c). verbatim_part i c) (zip [1..int (length cs)] cs)) @
       ''\<newline>\<newline>## Short-Term Context (Compressed)\<newline>\<newline>''"
    unfolding get_recent_context_def ctx st by simp
  from c m g show ?thesis by (intro conjI)
qed

lemma two_calls_context:
  "get_recent_context (store_turns byte_tokens ThreeTierMemorySystem_init two_calls) =
     ''\<newline># Recent Conversation Context\<newline>\<newline>## Immediate Context (Verbatim)\<newline>\<newline>[Turn 1 - Recent]\<newline>User: What is Q1 revenue?\<newline>Assistant: ok\<newline>\<newline>\<newline>[Turn 2 - Recent]\<newline>User: And Q2?\<newline>Assistant: ok\<newline>\<newline>\<newline>## Short-Term Context (Compressed)\<newline>\<newline>''"
  by code_simp

lemma two_calls_parts:
  "py_join ''\<newline>'' (map (\<lambda>(i, c). verbatim_part i c) (zip [1..int (length two_calls)] two_calls)) =
     ''\<newline>[Turn 1 - Recent]\<newline>User: What is Q1 revenue?\<newline>Assistant: ok\<newline>\<newline>\<newline>[Turn 2 - Recent]\<newline>User: And Q2?\<newline>Assistant: ok\<newline>''"
  by code_simp

text \<open>
  C9 for two calls on the newly constructed orchestrator, whose sensory tier has capacity
  2: both turns are in the recent context, in the order of the calls.
\<close>

theorem no_premature_cascade_witness:
  "fresh ThreeTierMemorySystem_init
   \<and> int (length two_calls) \<le> max_turns (sensory ThreeTierMemorySystem_init)
   \<and> compressed_turns (short_term (store_turns byte_tokens ThreeTierMemorySystem_init two_calls)) = []
   \<and> memories (long_term (store_turns byte_tokens ThreeTierMemorySystem_init two_calls)) = []
   \<and> get_recent_context (store_turns byte_tokens ThreeTierMemorySystem_init two_calls) =
     ''\<newline># Recent Conversation Context\<newline>\<newline>## Immediate Context (Verbatim)\<newline>\<newline>[Turn 1 - Recent]\<newline>User: What is Q1 revenue?\<newline>Assistant: ok\<newline>\<newline>\<newline>[Turn 2 - Recent]\<newline>User: And Q2?\<newline>Assistant: ok\<newline>\<newline>\<newline>## Short-Term Context (Compressed)\<newline>\<newline>''"
proof -
  have cap: "int (length two_calls) \<le> max_turns (sensory ThreeTierMemorySystem_init)"
    by (simp add: two_calls_def ThreeTierMemorySystem_init_def SensoryMemory_init_def)
  note th = no_premature_cascade [OF fresh_init cap, of byte_tokens]
  from th have c: "compressed_turns (short_term
      (store_turns byte_tokens ThreeTierMemorySystem_init two_calls)) = []"
    by (elim conjE)
  from th have m: "memories (long_term
      (store_turns byte_tokens ThreeTierMemorySystem_init two_calls)) = []"
    by (elim conjE)
  from th have "get_recent_context (store_turns byte_tokens ThreeTierMemorySystem_init two_calls) =
       ''\<newline># Recent Conversation Context\<newline>\<newline>## Immediate Context (Verbatim)\<newline>'' @
       py_join ''\<newline>'' (map (\<lambda>(i, c). verbatim_part i c)
         (zip [1..int (length two_calls)] two_calls)) @
       ''\<newline>\<newline>## Short-Term Context (Compressed)\<newline>\<newline>''"
    by (elim conjE)
  then have g: "get_recent_context (store_turns byte_tokens ThreeTierMemorySystem_init two_calls) =
     ''\<newline># Recent Conversation Context\<newline>\<newline>## Immediate Context (Verbatim)\<newline>\<newline>[Turn 1 - Recent]\<newline>User: What is Q1 revenue?\<newline>Assistant: ok\<newline>\<newline>\<newline>[Turn 2 - Recent]\<newline>User: And Q2?\<newline>Assistant: ok\<newline>\<newline>\<newline>## Short-Term Context (Compressed)\<newline>\<newline>''"
    unfolding two_calls_parts by simp
  from fresh_init cap c m g show ?thesis by (intro conjI)
qed

section \<open>A compressor that fails\<close>

lemma byte_count: "TokenCounter_count byte_tokens text = length text"
  by (simp add: TokenCounter_count_def byte_tokens_def)

lemma byte_truncate:
  "TokenCounter_truncate byte_tokens text n =
     (if int (length text) \<le> n then text else py_take n text)"
  by (simp add: TokenCounter_truncate_def byte_tokens_def py_take_def take_map o_def)

lemma example_truncation:
  "TokenCounter_truncate byte_tokens
     (combined_text (sensory_entry byte_tokens ''t1'' example_turn_data))
     (target_tokens byte_tokens (1 / 2) (sensory_entry byte_tokens ''t1'' example_turn_data))
   = ''User: u\<newline>As''"
  by (simp add: byte_truncate byte_count combined_text_def sensory_entry_def
      example_turn_data_def target_tokens_def py_int_def py_take_def)

lemma empty_summaries:
  "map compressed_summary (compressed_turns (short_term
     (store_turns byte_tokens small_system empty_summary_calls))) = ['''']"
  by code_simp

text \<open>
  Claim C3, as stated, fails for a compressor that returns no usable result. A compressor
  that returns the empty text does not raise, so nothing falls back: the empty text is the
  summary of the turn, not the truncation of its text to half of its tokens. After two such
  calls on the orchestrator with tiers of capacity 1 the short-term tier holds turn 1 with
  an empty summary.
\<close>

theorem empty_summary_is_kept:
  "compress_turn byte_tokens (1 / 2) (sensory_entry byte_tokens ''t1'' example_turn_data)
     (\<lambda>p. Returns '''') = ''''
   \<and> TokenCounter_truncate byte_tokens
       (combined_text (sensory_entry byte_tokens ''t1'' example_turn_data))
       (target_tokens byte_tokens (1 / 2) (sensory_entry byte_tokens ''t1'' example_turn_data))
     = ''User: u\<newline>As''
   \<and> map compressed_summary (compressed_turns (short_term
       (store_turns byte_tokens small_system empty_summary_calls))) = ['''']"
proof -
  have "compress_turn byte_tokens (1 / 2) (sensory_entry byte_tokens ''t1'' example_turn_data)
     (\<lambda>p. Returns '''') = ''''"
    by (simp add: compress_turn_def)
  then show ?thesis
    using example_truncation empty_summaries by (intro conjI) assumption+
qed

text \<open>
  Claim C3, amended. When the compressor raises, \<open>_compress_turn\<close> returns the text
  \<^verbatim>\<open>User: ... Assistant: ...\<close> of the turn truncated to the number of its tokens times the
  compression ratio, rounded towards zero, and \<open>_ultra_compress\<close> returns the compressed summary
  truncated to 100 tokens; \<open>compress_and_store\<close> and \<open>archive_turn\<close> then do exactly what
  they do with a compressor that returns that truncation. When the compressor returns a
  text, that text is the result, whatever it is. Every \<open>store_turn\<close> call, with any
  compressor, counts the turn and adds its number to those that the tiers hold; of these
  numbers, the archive's first and the sensory tier's last, at most the first one is
  dropped.
\<close>

theorem compression_failure_falls_back:
  "(llm (compress_prompt tc ratio t) = Raises \<longrightarrow>
      compress_turn tc ratio t llm
        = TokenCounter_truncate tc (combined_text t) (target_tokens tc ratio t))
   \<and> (llm (compress_prompt tc ratio t) = Returns x \<longrightarrow> compress_turn tc ratio t llm = x)
   \<and> (llm (ultra_prompt (compressed_summary ct)) = Raises \<longrightarrow>
      ultra_compress tc ct llm = TokenCounter_truncate tc (compressed_summary ct) 100)
   \<and> (llm (ultra_prompt (compressed_summary ct)) = Returns x \<longrightarrow> ultra_compress tc ct llm = x)
   \<and> (llm (compress_prompt tc (compression_ratio st) t) = Raises \<longrightarrow>
      compress_and_store tc now st t llm
        = compress_and_store tc now st t
            (\<lambda>p. Returns (TokenCounter_truncate tc (combined_text t)
                            (target_tokens tc (compression_ratio st) t))))
   \<and> (llm (ultra_prompt (compressed_summary ct)) = Raises \<longrightarrow>
      archive_turn tc lt ct llm
        = archive_turn tc lt ct
            (\<lambda>p. Returns (TokenCounter_truncate tc (compressed_summary ct) 100)))
   \<and> current_turn (store_turn tc sys c) = current_turn sys + 1
   \<and> (all_turn_numbers (store_turn tc sys c) = all_turn_numbers sys @ [current_turn sys + 1]
      \<or> all_turn_numbers (store_turn tc sys c)
         = tl (all_turn_numbers sys @ [current_turn sys + 1]))"
proof -
  have 1: "llm (compress_prompt tc ratio t) = Raises \<longrightarrow>
      compress_turn tc ratio t llm
        = TokenCounter_truncate tc (combined_text t) (target_tokens tc ratio t)"
    by (simp add: compress_turn_def)
  have 2: "llm (compress_prompt tc ratio t) = Returns x \<longrightarrow> compress_turn tc ratio t llm = x"
    by (simp add: compress_turn_def)
  have 3: "llm (ultra_prompt (compressed_summary ct)) = Raises \<longrightarrow>
      ultra_compress tc ct llm = TokenCounter_truncate tc (compressed_summary ct) 100"
    by (simp add: ultra_compress_def)
  have 4: "llm (ultra_prompt (compressed_summary ct)) = Returns x \<longrightarrow> ultra_compress tc ct llm = x"
    by (simp add: ultra_compress_def)
  have 5: "llm (compress_prompt tc (compression_ratio st) t) = Raises \<longrightarrow>
      compress_and_store tc now st t llm
        = compress_and_store tc now st t
            (\<lambda>p. Returns (TokenCounter_truncate tc (combined_text t)
                            (target_tokens tc (compression_ratio st) t)))"
    by (simp add: compress_and_store_def compress_turn_def)
  have 6: "llm (ultra_prompt (compressed_summary ct)) = Raises \<longrightarrow>
      archive_turn tc lt ct llm
        = archive_turn tc lt ct
            (\<lambda>p. Returns (TokenCounter_truncate tc (compressed_summary ct) 100))"
    by (simp add: archive_turn_def ultra_compress_def)
  have 7: "current_turn (store_turn tc sys c) = current_turn sys + 1"
    by (rule store_turn_current_turn)
  have 8: "all_turn_numbers (store_turn tc sys c) = all_turn_numbers sys @ [current_turn sys + 1]
      \<or> all_turn_numbers (store_turn tc sys c)
         = tl (all_turn_numbers sys @ [current_turn sys + 1])"
    using store_turn_turn_numbers [of tc sys c] by (elim disjE conjE) simp_all
  show ?thesis
    using 1 2 3 4 5 6 7 8 by (intro conjI) assumption+
qed

text \<open>
  C3, amended, for a compressor that raises on the first turn of the examples: the summary
  is the first ten tokens of the turn's text.
\<close>

theorem compression_failure_falls_back_witness:
  "compress_turn byte_tokens (1 / 2) (sensory_entry byte_tokens ''t1'' example_turn_data)
       (\<lambda>p. Raises) = ''User: u\<newline>As''
   \<and> ultra_compress byte_tokens (example_compressed 1 ''a'') (\<lambda>p. Raises) = ''sum''
   \<and> compress_turn byte_tokens (1 / 2) (sensory_entry byte_tokens ''t1'' example_turn_data)
       (\<lambda>p. Returns ''s'') = ''s''"
proof -
  note th = compression_failure_falls_back [of "\<lambda>p. Raises" byte_tokens "1 / 2"
      "sensory_entry byte_tokens ''t1'' example_turn_data" "''s''" "example_compressed 1 ''a''"
      "ShortTermMemory_init 1 (1 / 2)" "''t2''" "LongTermMemory_init 1" small_system
      "example_call ''u''"]
  have r: "(\<lambda>p. Raises) (compress_prompt byte_tokens (1 / 2)
       (sensory_entry byte_tokens ''t1'' example_turn_data)) = Raises"
    by simp
  from th have "(\<lambda>p. Raises) (compress_prompt byte_tokens (1 / 2)
       (sensory_entry byte_tokens ''t1'' example_turn_data)) = Raises \<longrightarrow>
      compress_turn byte_tokens (1 / 2) (sensory_entry byte_tokens ''t1'' example_turn_data)
        (\<lambda>p. Raises)
        = TokenCounter_truncate byte_tokens
            (combined_text (sensory_entry byte_tokens ''t1'' example_turn_data))
            (target_tokens byte_tokens (1 / 2) (sensory_entry byte_tokens ''t1'' example_turn_data))"
    by (elim conjE)
  then have "compress_turn byte_tokens (1 / 2) (sensory_entry byte_tokens ''t1'' example_turn_data)
        (\<lambda>p. Raises)
        = TokenCounter_truncate byte_tokens
            (combined_text (sensory_entry byte_tokens ''t1'' example_turn_data))
            (target_tokens byte_tokens (1 / 2) (sensory_entry byte_tokens ''t1'' example_turn_data))"
    using r by (rule mp)
  then have a: "compress_turn byte_tokens (1 / 2)
      (sensory_entry byte_tokens ''t1'' example_turn_data) (\<lambda>p. Raises) = ''User: u\<newline>As''"
    unfolding example_truncation .
  from th have "(\<lambda>p. Raises) (ultra_prompt (compressed_summary (example_compressed 1 ''a''))) = Raises
      \<longrightarrow> ultra_compress byte_tokens (example_compressed 1 ''a'') (\<lambda>p. Raises)
        = TokenCounter_truncate byte_tokens (compressed_summary (example_compressed 1 ''a'')) 100"
    by (elim conjE)
  then have b: "ultra_compress byte_tokens (example_compressed 1 ''a'') (\<lambda>p. Raises) = ''sum''"
    by (simp add: byte_truncate example_compressed_def)
  from compression_failure_falls_back [of "\<lambda>p. Returns ''s''" byte_tokens "1 / 2"
      "sensory_entry byte_tokens ''t1'' example_turn_data" "''s''" "example_compressed 1 ''a''"
      "ShortTermMemory_init 1 (1 / 2)" "''t2''" "LongTermMemory_init 1" small_system
      "example_call ''u''"]
  have "(\<lambda>p. Returns ''s'') (compress_prompt byte_tokens (1 / 2)
       (sensory_entry byte_tokens ''t1'' example_turn_data)) = Returns ''s'' \<longrightarrow>
      compress_turn byte_tokens (1 / 2) (sensory_entry byte_tokens ''t1'' example_turn_data)
        (\<lambda>p. Returns ''s'') = ''s''"
    by (elim conjE)
  then have c: "compress_turn byte_tokens (1 / 2)
      (sensory_entry byte_tokens ''t1'' example_turn_data) (\<lambda>p. Returns ''s'') = ''s''"
    by simp
  from a b c show ?thesis by (intro conjI)
qed

section \<open>The order of the retrieved candidates\<close>

lemma insort_key_map:
  "insort_key f (g x) (map g xs) = map g (insort_key (\<lambda>y. f (g y)) x xs)"
  by (induction xs) simp_all

lemma sort_key_map: "sort_key f (map g xs) = map g (sort_key (\<lambda>y. f (g y)) xs)"
  by (induction xs) (simp_all add: insort_key_map)

lemma py_take_map: "py_take n (map g xs) = map g (py_take n xs)"
  by (simp add: py_take_def take_map)

lemma py_take_take: "\<exists>j. py_take n xs = take j xs"
  unfolding py_take_def by (cases "0 \<le> n") auto

lemma filter_take_prefix: "\<exists>j. filter P (take n xs) = take j (filter P xs)"
proof -
  have "filter P xs = filter P (take n xs) @ filter P (drop n xs)"
    by (metis append_take_drop_id filter_append)
  then have "take (length (filter P (take n xs))) (filter P xs) = filter P (take n xs)"
    by simp
  then show ?thesis by metis
qed

lemma retrieve_context_eq:
  "retrieve_context r cl k =
     py_take k (sort_key (\<lambda>c. - compute_hybrid_score r c cl) (get_candidate_memories (memory r)))"
proof (cases "get_candidate_memories (memory r) = []")
  case True
  then show ?thesis
    by (simp add: retrieve_context_def py_take_def)
next
  case False
  then show ?thesis
    by (simp add: retrieve_context_def Let_def sort_key_map py_take_map o_def)
qed

text \<open>
  Claim C4, amended. \<open>retrieve_context\<close> returns the slice \<^verbatim>\<open>[:max_results]\<close> of the
  pool sorted by the negated total score with a stable sort: the total scores never
  increase along the result, and the candidates of the result that have one and the same
  total score are in the order in which the pool lists them, of which they are the first
  ones. The pool lists the compressed turns of the short-term tier in the order of its list
  and after them the memories of the archive in the order of its list. Turn numbers are not
  compared.
\<close>

theorem retrieve_context_order:
  "retrieve_context r cl k =
     py_take k (sort_key (\<lambda>c. - compute_hybrid_score r c cl) (get_candidate_memories (memory r)))
   \<and> sorted_wrt (\<lambda>a b. compute_hybrid_score r a cl \<ge> compute_hybrid_score r b cl)
       (retrieve_context r cl k)
   \<and> (\<exists>j. filter (\<lambda>c. compute_hybrid_score r c cl = v) (retrieve_context r cl k)
          = take j (filter (\<lambda>c. compute_hybrid_score r c cl = v)
                      (get_candidate_memories (memory r))))
   \<and> get_candidate_memories (memory r) =
       map short_term_candidate (compressed_turns (short_term (memory r))) @
       map long_term_candidate (memories (long_term (memory r)))"
proof -
  let ?f = "\<lambda>c. - compute_hybrid_score r c cl"
  let ?pool = "get_candidate_memories (memory r)"
  obtain j where j: "py_take k (sort_key ?f ?pool) = take j (sort_key ?f ?pool)"
    using py_take_take by blast
  have eq: "retrieve_context r cl k = take j (sort_key ?f ?pool)"
    using retrieve_context_eq [of r cl k] j by simp
  have "sorted (map ?f (sort_key ?f ?pool))"
    by (rule sorted_sort_key)
  then have "sorted_wrt (\<lambda>a b. ?f a \<le> ?f b) (sort_key ?f ?pool)"
    by (simp add: sorted_map)
  then have "sorted_wrt (\<lambda>a b. ?f a \<le> ?f b) (take j (sort_key ?f ?pool))"
    by (rule sorted_wrt_take)
  then have 2: "sorted_wrt (\<lambda>a b. compute_hybrid_score r a cl \<ge> compute_hybrid_score r b cl)
       (retrieve_context r cl k)"
    unfolding eq by simp
  have "filter (\<lambda>c. ?f c = - v) (sort_key ?f ?pool) = filter (\<lambda>c. ?f c = - v) ?pool"
    by (rule sort_key_stable)
  then have st: "filter (\<lambda>c. compute_hybrid_score r c cl = v) (sort_key ?f ?pool)
      = filter (\<lambda>c. compute_hybrid_score r c cl = v) ?pool"
    by simp
  obtain i where "filter (\<lambda>c. compute_hybrid_score r c cl = v) (take j (sort_key ?f ?pool))
      = take i (filter (\<lambda>c. compute_hybrid_score r c cl = v) (sort_key ?f ?pool))"
    using filter_take_prefix by blast
  then have "filter (\<lambda>c. compute_hybrid_score r c cl = v) (retrieve_context r cl k)
      = take i (filter (\<lambda>c. compute_hybrid_score r c cl = v) ?pool)"
    unfolding eq st .
  then have 3: "\<exists>j. filter (\<lambda>c. compute_hybrid_score r c cl = v) (retrieve_context r cl k)
          = take j (filter (\<lambda>c. compute_hybrid_score r c cl = v) ?pool)"
    by (rule exI)
  have 4: "?pool = map short_term_candidate (compressed_turns (short_term (memory r))) @
       map long_term_candidate (memories (long_term (memory r)))"
    by (simp add: get_candidate_memories_def)
  show ?thesis
    using retrieve_context_eq [of r cl k] 2 3 4 by (intro conjI) assumption+
qed

lemma tie_pool:
  "get_candidate_memories (store_turns byte_tokens ThreeTierMemorySystem_init four_calls) =
     [\<lparr>cand_turn_number = 1, summary = ''sum'', cand_entities = [], cand_tokens = 3,
       source = ''short_term''\<rparr>,
      \<lparr>cand_turn_number = 2, summary = ''sum'', cand_entities = [], cand_tokens = 3,
       source = ''short_term''\<rparr>]"
  by code_simp

lemma tie_score: "compute_hybrid_score tie_retriever c no_clues = 3 / 20"
  by (simp add: compute_hybrid_score_def tie_retriever_def HybridRetriever_init_def no_clues_def
      semantic_similarity_def entity_overlap_def py_split_def py_lower_def Let_def)

text \<open>
  Claim C4, as stated, fails. After four calls on a newly constructed orchestrator the
  short-term tier holds turns 1 and 2. With the recency weight 0 and clues without text
  and entities both candidates have the total score \<open>3/20\<close>, and \<open>retrieve_context\<close>
  returns turn 1 before turn 2, the more recent one.
\<close>

theorem equal_scores_keep_pool_order:
  "map cand_turn_number (retrieve_context tie_retriever no_clues 5) = [1, 2]
   \<and> map (\<lambda>c. compute_hybrid_score tie_retriever c no_clues)
       (retrieve_context tie_retriever no_clues 5) = [3 / 20, 3 / 20]"
proof -
  have m: "memory tie_retriever = store_turns byte_tokens ThreeTierMemorySystem_init four_calls"
    by (simp add: tie_retriever_def HybridRetriever_init_def)
  have "retrieve_context tie_retriever no_clues 5 =
      py_take 5 (sort_key (\<lambda>c. - (3 / 20 :: real))
        (get_candidate_memories (store_turns byte_tokens ThreeTierMemorySystem_init four_calls)))"
    unfolding retrieve_context_eq tie_score m ..
  then have "retrieve_context tie_retriever no_clues 5 =
     [\<lparr>cand_turn_number = 1, summary = ''sum'', cand_entities = [], cand_tokens = 3,
       source = ''short_term''\<rparr>,
      \<lparr>cand_turn_number = 2, summary = ''sum'', cand_entities = [], cand_tokens = 3,
       source = ''short_term''\<rparr>]"
    unfolding tie_pool by (simp add: py_take_def)
  then show ?thesis
    by (simp add: tie_score)
qed

end
